theory Spec2Isabelle
  imports Main
begin

section \<open>Data model of \<open>metalearn.metafeatures.Metafeatures\<close>\<close>

text \<open>
  A pandas column is its label, whether its dtype is numeric, and its cells; a missing
  cell (NaN/None in pandas) is \<open>None\<close>. A \<open>DataFrame\<close> is the list of its columns in
  order, a \<open>Series\<close> is one named column.
\<close>

record column =
  col_name :: string
  col_numeric :: bool
  col_cells :: "int option list"

type_synonym frame = "column list"

record series =
  ser_name :: string
  ser_numeric :: bool
  ser_cells :: "int option list"

text \<open>
  The \<open>sample_shape\<close> argument is untyped in the source: \<open>None\<close>, a tuple or list
  (its elements \<open>None\<close> or a number), or an object of any other type.
\<close>

datatype shape_arg = ShapeNone | ShapeSeq "int option list" | ShapeOther

text \<open>
  A Python \<open>dict\<close> from column name to type name is the list of its items in insertion
  order; in a dict the keys are distinct, so \<open>len(d.keys())\<close> is the length of that list.
\<close>

type_synonym column_types = "(string \<times> string) list"

text \<open>
  Values held by the session cache. \<open>NaN\<close> is the object \<open>np.nan\<close> itself, which the
  evaluator recognises by identity (\<open>value is np.nan\<close>); every other value, tables and
  numbers included, is some other constructor.
\<close>

datatype pyval =
    NaN
  | PyNone
  | Num int
  | Str string
  | Frame frame
  | Ser series
  | ColTypes column_types
  | ShapeV shape_arg
  | Opaque nat

text \<open>
  A recorded compute time: a float number of seconds (here an integer number of clock
  ticks), or the float NaN that marks an uncomputable resource. Adding to NaN gives NaN.
\<close>

datatype ptime = TNaN | Tm int

fun tadd :: "ptime \<Rightarrow> ptime \<Rightarrow> ptime" where
  "tadd (Tm a) (Tm b) = Tm (a + b)"
| "tadd _ _ = TNaN"

subsection \<open>Errors\<close>

text \<open>Every \<open>raise ValueError(...)\<close> of the source, named after its message, with the
  values the message is formatted from.\<close>

datatype value_error =
    ColumnTypesCountFeatures
  | ColumnTypesCountFeaturesTarget
  | InvalidColumnTypes "(string \<times> string) list"
  | InvalidMetafeatures "string list"
  | SampleShapeType
  | SampleShapeLength
  | SampleLessThanOneRow
  | SampleLessThanOneColumn
  | SampleLessThanMinRows int
  | NFoldsTooSmall int
  | ClassTooSmall "int" nat

datatype py_error =
    ValueError value_error
  | TypeError
  | KeyError
  | AttributeError
  | RecursionError
  | FunctionRaised

subsection \<open>Class constants\<close>

definition NUMERIC :: string where "NUMERIC = ''NUMERIC''"
definition CATEGORICAL :: string where "CATEGORICAL = ''CATEGORICAL''"
definition NO_TARGETS :: string where "NO_TARGETS = ''NO_TARGETS''"
definition NUMERIC_TARGETS :: string where "NUMERIC_TARGETS = ''NUMERIC_TARGETS''"

subsection \<open>The registry (\<open>_resource_info\<close>, \<open>_functions\<close>, \<open>IDS\<close>)\<close>

text \<open>
  The registry is loaded from a JSON file beside the module. A parameter of a descriptor
  is a number (a literal) or a string (the name of another resource). Every key of a
  descriptor that the source reads with \<open>in\<close>, \<open>.get\<close> or \<open>[...]\<close> is optional here, and
  reading an absent key with \<open>[...]\<close> is a \<open>KeyError\<close>.
\<close>

datatype param = Lit int | Ref string

record resource_descr =
  rd_function :: "string option"
  rd_parameters :: "param list option"
  rd_returns :: "string list option"
  rd_seed_offset :: "int option"

record function_descr =
  fd_parameters :: "param list option"
  fd_returns :: "string list option"
  fd_seed_offset :: "int option"

record registry =
  IDS :: "string list"
  resource_info :: "string \<Rightarrow> resource_descr option"
  functions_info :: "string \<Rightarrow> function_descr option"

section \<open>Validation of the arguments of \<open>compute\<close>\<close>

definition valid_type :: "string \<Rightarrow> bool" where
  "valid_type t = (t = NUMERIC \<or> t = CATEGORICAL)"

definition validate_column_types ::
  "frame \<Rightarrow> series option \<Rightarrow> column_types option \<Rightarrow> py_error + unit" where
  "validate_column_types X Y column_types =
     (case column_types of
        None \<Rightarrow> Inr ()
      | Some ct \<Rightarrow>
          (if Y = None \<and> length ct \<noteq> length X
             then Inl (ValueError ColumnTypesCountFeatures)
           else if Y \<noteq> None \<and> length ct \<noteq> length X + 1
             then Inl (ValueError ColumnTypesCountFeaturesTarget)
           else
             (let invalid_column_types = filter (\<lambda>(col_name, col_type). \<not> valid_type col_type) ct
              in if length invalid_column_types > 0
                   then Inl (ValueError (InvalidColumnTypes invalid_column_types))
                 else Inr ())))"

definition validate_metafeature_ids ::
  "registry \<Rightarrow> string list option \<Rightarrow> py_error + unit" where
  "validate_metafeature_ids reg metafeature_ids =
     (case metafeature_ids of
        None \<Rightarrow> Inr ()
      | Some ids \<Rightarrow>
          (let invalid_metafeature_ids = filter (\<lambda>mf. resource_info reg mf = None) ids
           in if length invalid_metafeature_ids > 0
                then Inl (ValueError (InvalidMetafeatures invalid_metafeature_ids))
              else Inr ()))"

text \<open>\<open>Y.unique().shape[0]\<close>: the number of distinct values of the target.\<close>

definition n_unique :: "series \<Rightarrow> int" where
  "n_unique Y = int (length (remdups (ser_cells Y)))"

definition validate_sample_shape ::
  "series option \<Rightarrow> shape_arg \<Rightarrow> int \<Rightarrow> py_error + unit" where
  "validate_sample_shape Y sample_shape n_folds =
     (case sample_shape of
        ShapeNone \<Rightarrow> Inr ()
      | ShapeOther \<Rightarrow> Inl (ValueError SampleShapeType)
      | ShapeSeq s \<Rightarrow>
          (if length s \<noteq> 2 then Inl (ValueError SampleShapeLength)
           else if s ! 0 \<noteq> None \<and> the (s ! 0) < 1 then Inl (ValueError SampleLessThanOneRow)
           else if s ! 1 \<noteq> None \<and> the (s ! 1) < 1 then Inl (ValueError SampleLessThanOneColumn)
           else if s ! 0 \<noteq> None \<and> Y \<noteq> None
                   \<and> the (s ! 0) < n_unique (the Y) * n_folds
             then Inl (ValueError (SampleLessThanMinRows (n_unique (the Y) * n_folds)))
           else Inr ()))"

text \<open>
  \<open>"ErrRate" in mf_id\<close>: the substring test of Python strings.
\<close>

fun starts_with :: "string \<Rightarrow> string \<Rightarrow> bool" where
  "starts_with [] s = True"
| "starts_with (c # cs) [] = False"
| "starts_with (c # cs) (x # xs) = (c = x \<and> starts_with cs xs)"

fun str_in :: "string \<Rightarrow> string \<Rightarrow> bool" where
  "str_in sub [] = (sub = [])"
| "str_in sub (x # xs) = (starts_with sub (x # xs) \<or> str_in sub xs)"

definition list_metafeatures_landmarking :: "registry \<Rightarrow> string list" where
  "list_metafeatures_landmarking reg =
     filter (\<lambda>mf_id. str_in ''ErrRate'' mf_id \<or> str_in ''Kappa'' mf_id) (IDS reg)"

text \<open>
  \<open>Y.groupby(Y)\<close> yields one group per distinct non-missing value, in sorted order;
  \<open>group.shape[0]\<close> is the number of rows with that value.
\<close>

definition group_keys :: "series \<Rightarrow> int list" where
  "group_keys Y = sort (remdups (map the (filter (\<lambda>c. c \<noteq> None) (ser_cells Y))))"

definition group_size :: "series \<Rightarrow> int \<Rightarrow> nat" where
  "group_size Y k = length (filter (\<lambda>c. c = Some k) (ser_cells Y))"

text \<open>\<open>n_folds\<close> is an integer here, so the test that it is one is not a branch.\<close>

definition validate_n_folds ::
  "registry \<Rightarrow> series option \<Rightarrow> string list option \<Rightarrow> int \<Rightarrow> py_error + unit" where
  "validate_n_folds reg Y metafeature_ids n_folds =
     (if n_folds < 2 then Inl (ValueError (NFoldsTooSmall n_folds))
      else if Y \<noteq> None \<and> metafeature_ids \<noteq> None then
        (let landmarking_mfs = list_metafeatures_landmarking reg
         in if filter (\<lambda>mf_id. mf_id \<in> set landmarking_mfs) (the metafeature_ids) \<noteq> [] then
              (case find (\<lambda>k. int (group_size (the Y) k) < n_folds) (group_keys (the Y)) of
                 Some k \<Rightarrow> Inl (ValueError (ClassTooSmall k (group_size (the Y) k)))
               | None \<Rightarrow> Inr ())
            else Inr ())
      else Inr ())"

text \<open>
  \<open>_validate_compute_arguments\<close> runs the validators in order and the first error is
  raised. \<open>X\<close> is a frame and \<open>Y\<close> a series or \<open>None\<close> by their types here, which is what
  \<open>_validate_X\<close> and \<open>_validate_Y\<close> test.
\<close>

definition validate_compute_arguments ::
  "registry \<Rightarrow> frame \<Rightarrow> series option \<Rightarrow> column_types option \<Rightarrow> string list option
     \<Rightarrow> shape_arg \<Rightarrow> int \<Rightarrow> py_error + unit" where
  "validate_compute_arguments reg X Y column_types metafeature_ids sample_shape n_folds =
     (case validate_column_types X Y column_types of
        Inl e \<Rightarrow> Inl e
      | Inr _ \<Rightarrow>
     (case validate_metafeature_ids reg metafeature_ids of
        Inl e \<Rightarrow> Inl e
      | Inr _ \<Rightarrow>
     (case validate_sample_shape Y sample_shape n_folds of
        Inl e \<Rightarrow> Inl e
      | Inr _ \<Rightarrow> validate_n_folds reg Y metafeature_ids n_folds)))"

text \<open>\<open>d[k] = v\<close> on a dict: an existing key keeps its place, a new key goes last.\<close>

fun dict_set :: "('k \<times> 'v) list \<Rightarrow> 'k \<Rightarrow> 'v \<Rightarrow> ('k \<times> 'v) list" where
  "dict_set [] k v = [(k, v)]"
| "dict_set ((k', v') # d) k v = (if k' = k then (k, v) # d else (k', v') # dict_set d k v)"

definition dtype_name :: "bool \<Rightarrow> string" where
  "dtype_name numeric = (if numeric then NUMERIC else CATEGORICAL)"

definition infer_column_types :: "frame \<Rightarrow> series option \<Rightarrow> column_types" where
  "infer_column_types X Y =
     (let column_types = foldl (\<lambda>d c. dict_set d (col_name c) (dtype_name (col_numeric c))) [] X
      in case Y of
           None \<Rightarrow> column_types
         | Some y \<Rightarrow> dict_set column_types (ser_name y) (dtype_name (ser_numeric y)))"

section \<open>The target-dependence analysis\<close>

text \<open>
  \<open>_is_target_dependent\<close> recurses over the registry, which nothing proves acyclic. The
  first argument after the registry is the number of stack frames left to the
  recursion: with none left Python raises \<open>RecursionError\<close>. A parameter that is a
  number is not a key of the registry, and looking it up raises \<open>KeyError\<close>.
\<close>

fun is_target_dependent :: "registry \<Rightarrow> nat \<Rightarrow> param \<Rightarrow> py_error + bool"
  and any_target_dependent :: "registry \<Rightarrow> nat \<Rightarrow> param list \<Rightarrow> py_error + bool" where
  "is_target_dependent reg 0 resource_name = Inl RecursionError"
| "is_target_dependent reg (Suc d) resource_name =
     (if resource_name = Ref ''Y'' then Inr True
      else if resource_name = Ref ''XSample'' then Inr False
      else
        (case resource_name of
           Lit x \<Rightarrow> Inl KeyError
         | Ref name \<Rightarrow>
        (case resource_info reg name of
           None \<Rightarrow> Inl KeyError
         | Some info \<Rightarrow>
        (case any_target_dependent reg d (case rd_parameters info of None \<Rightarrow> [] | Some ps \<Rightarrow> ps) of
           Inl e \<Rightarrow> Inl e
         | Inr True \<Rightarrow> Inr True
         | Inr False \<Rightarrow>
        (case rd_function info of
           None \<Rightarrow> Inl KeyError
         | Some f \<Rightarrow>
        (case functions_info reg f of
           None \<Rightarrow> Inl KeyError
         | Some fd \<Rightarrow>
        (case fd_parameters fd of
           None \<Rightarrow> Inl KeyError
         | Some ps \<Rightarrow> any_target_dependent reg d ps)))))))"
| "any_target_dependent reg d [] = Inr False"
| "any_target_dependent reg d (parameter # rest) =
     (case is_target_dependent reg d parameter of
        Inl e \<Rightarrow> Inl e
      | Inr True \<Rightarrow> Inr True
      | Inr False \<Rightarrow> any_target_dependent reg d rest)"

section \<open>The session and the evaluator\<close>

text \<open>
  The attributes of a \<open>Metafeatures\<close> object that \<open>compute\<close> reads and writes.
  \<open>self_seed_offset\<close> is \<open>None\<close> until the attribute is first assigned. \<open>calls\<close> is not an
  attribute of the source: it records, for each call \<open>eval(f)(*parameters)\<close> made since
  the cache was initialised, the resource being resolved, the function called and the
  seed offset that was active at the call.
\<close>

record session =
  self_seed :: int
  self_seed_offset :: "int option"
  self_resources :: "string \<Rightarrow> (pyval \<times> ptime) option"
  calls :: "(string \<times> string \<times> int option) list"

text \<open>A call either raises, leaving the object as it is then, or returns.\<close>

datatype 'a outcome = Raised py_error session | Returned 'a session

fun session_of :: "'a outcome \<Rightarrow> session" where
  "session_of (Raised e st) = st"
| "session_of (Returned x st) = st"

text \<open>
  The producing functions are looked up by name with \<open>eval\<close> and are not part of the
  evaluator. \<open>produce f k args\<close> is what the function named \<open>f\<close> returns on \<open>args\<close> when it is
  the \<open>k\<close>-th call of the session, \<open>None\<close> when it raises (or when the name is unbound);
  \<open>elapsed k\<close> is the wall-clock time that call takes.
\<close>

record world =
  produce :: "string \<Rightarrow> nat \<Rightarrow> pyval list \<Rightarrow> pyval list option"
  elapsed :: "nat \<Rightarrow> int"

text \<open>\<open>_get_seed\<close>, which the registry names as \<open>self._get_seed\<close>.\<close>

definition get_seed :: "session \<Rightarrow> py_error + pyval list" where
  "get_seed st =
     (case self_seed_offset st of
        None \<Rightarrow> Inl AttributeError
      | Some off \<Rightarrow> Inr [Num (self_seed st + off)])"

definition call_function ::
  "world \<Rightarrow> session \<Rightarrow> string \<Rightarrow> pyval list \<Rightarrow> py_error + pyval list" where
  "call_function w st f args =
     (if f = ''self._get_seed'' then (if args = [] then get_seed st else Inl TypeError)
      else (case produce w f (length (calls st)) args of
              None \<Rightarrow> Inl FunctionRaised
            | Some results \<Rightarrow> Inr results))"

text \<open>The loop \<open>for result_name, result in zip(returns, results)\<close>.\<close>

definition store_results ::
  "session \<Rightarrow> string list \<Rightarrow> pyval list \<Rightarrow> ptime \<Rightarrow> session" where
  "store_results st returns results total_time =
     foldl (\<lambda>s (result_name, result).
              s\<lparr>self_resources := (self_resources s)(result_name \<mapsto> (result, total_time))\<rparr>)
       st (zip returns results)"

definition lookup_returns :: "registry \<Rightarrow> resource_descr \<Rightarrow> string \<Rightarrow> string list option" where
  "lookup_returns reg info f =
     (case rd_returns info of
        Some returns \<Rightarrow> Some returns
      | None \<Rightarrow> (case functions_info reg f of None \<Rightarrow> None | Some fd \<Rightarrow> fd_returns fd))"

definition lookup_parameters :: "registry \<Rightarrow> resource_descr \<Rightarrow> string \<Rightarrow> param list option" where
  "lookup_parameters reg info f =
     (case rd_parameters info of
        Some parameters \<Rightarrow> Some parameters
      | None \<Rightarrow> (case functions_info reg f of None \<Rightarrow> None | Some fd \<Rightarrow> fd_parameters fd))"

text \<open>The assignment of \<open>self.seed_offset\<close> at the head of \<open>_get_parameters\<close>.\<close>

definition assign_seed_offset ::
  "registry \<Rightarrow> resource_descr \<Rightarrow> string \<Rightarrow> session \<Rightarrow> py_error + session" where
  "assign_seed_offset reg info f st =
     (case rd_seed_offset info of
        Some off \<Rightarrow> Inr (st\<lparr>self_seed_offset := Some off\<rparr>)
      | None \<Rightarrow>
          (case functions_info reg f of
             None \<Rightarrow> Inl KeyError
           | Some fd \<Rightarrow>
               (case fd_seed_offset fd of
                  Some off \<Rightarrow> Inr (st\<lparr>self_seed_offset := Some off\<rparr>)
                | None \<Rightarrow> Inr st)))"

definition log_call :: "session \<Rightarrow> string \<Rightarrow> string \<Rightarrow> session" where
  "log_call st resource_name f = st\<lparr>calls := calls st @ [(resource_name, f, self_seed_offset st)]\<rparr>"

text \<open>The last two reads of \<open>_get_resource\<close>, \<open>self._resources[resource_name][...]\<close>, and
  its \<open>return\<close>.\<close>

definition return_cached :: "session \<Rightarrow> string \<Rightarrow> (pyval \<times> ptime) outcome" where
  "return_cached st resource_name =
     (case self_resources st resource_name of
        None \<Rightarrow> Raised KeyError st
      | Some cached \<Rightarrow> Returned cached st)"

text \<open>
  \<open>_get_resource\<close> and \<open>_get_parameters\<close> call each other; \<open>get_parameters_loop\<close> is the
  \<open>for\<close> loop of \<open>_get_parameters\<close>, with \<open>retrieved_parameters\<close> and \<open>total_time\<close> as
  arguments. The natural number is again the stack depth left: \<open>RecursionError\<close> at 0.
\<close>

fun get_resource ::
    "registry \<Rightarrow> world \<Rightarrow> nat \<Rightarrow> session \<Rightarrow> string \<Rightarrow> (pyval \<times> ptime) outcome"
  and get_parameters ::
    "registry \<Rightarrow> world \<Rightarrow> nat \<Rightarrow> session \<Rightarrow> string \<Rightarrow> (pyval list option \<times> ptime) outcome"
  and get_parameters_loop ::
    "registry \<Rightarrow> world \<Rightarrow> nat \<Rightarrow> session \<Rightarrow> param list \<Rightarrow> pyval list \<Rightarrow> ptime
       \<Rightarrow> (pyval list option \<times> ptime) outcome" where
  "get_resource reg w 0 st resource_name = Raised RecursionError st"
| "get_resource reg w (Suc d) st resource_name =
     (case
        (if self_resources st resource_name = None then
           (case resource_info reg resource_name of
              None \<Rightarrow> Raised KeyError st
            | Some info \<Rightarrow>
           (case rd_function info of
              None \<Rightarrow> Raised KeyError st
            | Some f \<Rightarrow>
           (case lookup_returns reg info f of
              None \<Rightarrow> Raised KeyError st
            | Some returns \<Rightarrow>
           (case get_parameters reg w d st resource_name of
              Raised e st1 \<Rightarrow> Raised e st1
            | Returned (None, total_time) st1 \<Rightarrow>
                Returned () (store_results st1 returns (replicate (length returns) NaN) TNaN)
            | Returned (Some parameters, total_time) st1 \<Rightarrow>
                (case call_function w st1 f parameters of
                   Inl e \<Rightarrow> Raised e (log_call st1 resource_name f)
                 | Inr results \<Rightarrow>
                     Returned ()
                       (store_results (log_call st1 resource_name f) returns results
                          (tadd total_time (Tm (elapsed w (length (calls st1)))))))))))
         else Returned () st)
      of
        Raised e st2 \<Rightarrow> Raised e st2
      | Returned _ st2 \<Rightarrow> return_cached st2 resource_name)"
| "get_parameters reg w d st resource_name =
     (case resource_info reg resource_name of
        None \<Rightarrow> Raised KeyError st
      | Some info \<Rightarrow>
     (case rd_function info of
        None \<Rightarrow> Raised KeyError st
      | Some f \<Rightarrow>
     (case lookup_parameters reg info f of
        None \<Rightarrow> Raised KeyError st
      | Some parameters \<Rightarrow>
     (case assign_seed_offset reg info f st of
        Inl e \<Rightarrow> Raised e st
      | Inr st0 \<Rightarrow> get_parameters_loop reg w d st0 parameters [] (Tm 0)))))"
| "get_parameters_loop reg w d st [] retrieved_parameters total_time =
     Returned (Some retrieved_parameters, total_time) st"
| "get_parameters_loop reg w d st (parameter # rest) retrieved_parameters total_time =
     (case
        (case parameter of
           Lit x \<Rightarrow> Returned (Num x, Tm 0) st
         | Ref name \<Rightarrow> get_resource reg w d st name)
      of
        Raised e st1 \<Rightarrow> Raised e st1
      | Returned (v, time_value) st1 \<Rightarrow>
          (if v = NaN then Returned (None, total_time) st1
           else get_parameters_loop reg w d st1 rest (retrieved_parameters @ [v])
                  (tadd total_time time_value)))"

section \<open>\<open>compute\<close>\<close>

text \<open>\<open>X.dropna(axis=1, how="all")\<close>: the columns that have a cell that is not missing.\<close>

definition dropna_all_columns :: "frame \<Rightarrow> frame" where
  "dropna_all_columns X = filter (\<lambda>c. \<exists>x \<in> set (col_cells c). x \<noteq> None) X"

text \<open>\<open>rnd\<close> is the number \<open>np.random.randint(2**32)\<close> draws when no seed is given.\<close>

definition set_seed :: "session \<Rightarrow> int option \<Rightarrow> int \<Rightarrow> session" where
  "set_seed self seed rnd = self\<lparr>self_seed := (case seed of None \<Rightarrow> rnd | Some s \<Rightarrow> s)\<rparr>"

definition init_resources ::
  "session \<Rightarrow> frame \<Rightarrow> series option \<Rightarrow> column_types \<Rightarrow> string list \<Rightarrow> shape_arg
     \<Rightarrow> int option \<Rightarrow> int \<Rightarrow> int \<Rightarrow> session" where
  "init_resources self X Y column_types metafeature_ids sample_shape seed rnd n_folds =
     (set_seed self seed rnd)
       \<lparr>self_resources :=
          [''XRaw'' \<mapsto> (Frame X, Tm 0),
           ''X'' \<mapsto> (Frame (dropna_all_columns X), Tm 0),
           ''Y'' \<mapsto> ((case Y of None \<Rightarrow> PyNone | Some y \<Rightarrow> Ser y), Tm 0),
           ''ColumnTypes'' \<mapsto> (ColTypes column_types, Tm 0),
           ''sample_shape'' \<mapsto> (ShapeV sample_shape, Tm 0),
           ''n_folds'' \<mapsto> (Num n_folds, Tm 0)],
        calls := []\<rparr>"

text \<open>
  The body of the loop over \<open>metafeature_ids\<close>: the value and the compute time reported
  for one requested name. The compute time is \<open>None\<close> or a float.
\<close>

definition compute_one ::
  "registry \<Rightarrow> world \<Rightarrow> nat \<Rightarrow> series option \<Rightarrow> column_types \<Rightarrow> session \<Rightarrow> string
     \<Rightarrow> (pyval \<times> ptime option) outcome" where
  "compute_one reg w d Y column_types st metafeature_id =
     (case
        (case is_target_dependent reg d (Ref metafeature_id) of
           Inl e \<Rightarrow> Inl e
         | Inr False \<Rightarrow> Inr False
         | Inr True \<Rightarrow>
             (case Y of
                None \<Rightarrow> Inr True
              | Some y \<Rightarrow>
                  (case map_of column_types (ser_name y) of
                     None \<Rightarrow> Inl KeyError
                   | Some t \<Rightarrow> Inr (t = NUMERIC))))
      of
        Inl e \<Rightarrow> Raised e st
      | Inr True \<Rightarrow>
          Returned (if Y = None then Str NO_TARGETS else Str NUMERIC_TARGETS, None) st
      | Inr False \<Rightarrow>
          (case get_resource reg w d st metafeature_id of
             Raised e st1 \<Rightarrow> Raised e st1
           | Returned (v, compute_time) st1 \<Rightarrow> Returned (v, Some compute_time) st1))"

fun compute_loop ::
  "registry \<Rightarrow> world \<Rightarrow> nat \<Rightarrow> series option \<Rightarrow> column_types \<Rightarrow> session \<Rightarrow> string list
     \<Rightarrow> (string \<Rightarrow> (pyval \<times> ptime option) option)
     \<Rightarrow> (string \<Rightarrow> (pyval \<times> ptime option) option) outcome" where
  "compute_loop reg w d Y column_types st [] computed_metafeatures =
     Returned computed_metafeatures st"
| "compute_loop reg w d Y column_types st (metafeature_id # rest) computed_metafeatures =
     (case compute_one reg w d Y column_types st metafeature_id of
        Raised e st1 \<Rightarrow> Raised e st1
      | Returned r st1 \<Rightarrow>
          compute_loop reg w d Y column_types st1 rest
            (computed_metafeatures(metafeature_id \<mapsto> r)))"

text \<open>The defaults \<open>compute\<close> fills in for arguments that are \<open>None\<close>.\<close>

definition column_types_or_inferred ::
  "frame \<Rightarrow> series option \<Rightarrow> column_types option \<Rightarrow> column_types" where
  "column_types_or_inferred X Y column_types =
     (case column_types of None \<Rightarrow> infer_column_types X Y | Some ct \<Rightarrow> ct)"

definition metafeature_ids_or_all :: "registry \<Rightarrow> string list option \<Rightarrow> string list" where
  "metafeature_ids_or_all reg metafeature_ids =
     (case metafeature_ids of None \<Rightarrow> IDS reg | Some ids \<Rightarrow> ids)"

definition sample_shape_or_unbounded :: "shape_arg \<Rightarrow> shape_arg" where
  "sample_shape_or_unbounded sample_shape =
     (if sample_shape = ShapeNone then ShapeSeq [None, None] else sample_shape)"

definition compute ::
  "registry \<Rightarrow> world \<Rightarrow> nat \<Rightarrow> session \<Rightarrow> frame \<Rightarrow> series option \<Rightarrow> column_types option
     \<Rightarrow> string list option \<Rightarrow> shape_arg \<Rightarrow> int option \<Rightarrow> int \<Rightarrow> int
     \<Rightarrow> (string \<Rightarrow> (pyval \<times> ptime option) option) outcome" where
  "compute reg w d self X Y column_types metafeature_ids sample_shape seed rnd n_folds =
     (case validate_compute_arguments reg X Y column_types metafeature_ids sample_shape n_folds of
        Inl e \<Rightarrow> Raised e self
      | Inr _ \<Rightarrow>
          (let column_types' = column_types_or_inferred X Y column_types;
               metafeature_ids' = metafeature_ids_or_all reg metafeature_ids;
               sample_shape' = sample_shape_or_unbounded sample_shape
           in case validate_compute_arguments reg X Y (Some column_types')
                     (Some metafeature_ids') sample_shape' n_folds of
                Inl e \<Rightarrow> Raised e self
              | Inr _ \<Rightarrow>
                  compute_loop reg w d Y column_types'
                    (init_resources self X Y column_types' metafeature_ids' sample_shape'
                       seed rnd n_folds)
                    metafeature_ids' Map.empty))"

section \<open>Notions used to state the properties\<close>

text \<open>
  The parameters \<open>_is_target_dependent\<close> walks through for a name: the descriptor's own
  \<open>parameters\<close> (none when the key is absent) followed by those its function declares.
\<close>

definition declared_parameters :: "registry \<Rightarrow> string \<Rightarrow> param list" where
  "declared_parameters reg name =
     (case resource_info reg name of
        None \<Rightarrow> []
      | Some info \<Rightarrow>
          (case rd_parameters info of None \<Rightarrow> [] | Some ps \<Rightarrow> ps) @
          (case rd_function info of
             None \<Rightarrow> []
           | Some f \<Rightarrow>
               (case functions_info reg f of
                  None \<Rightarrow> []
                | Some fd \<Rightarrow> (case fd_parameters fd of None \<Rightarrow> [] | Some ps \<Rightarrow> ps))))"

text \<open>
  A registry on which the analysis meets no literal and no unregistered name, and in
  which some rank decreases along every parameter it follows.
\<close>

definition analysable :: "registry \<Rightarrow> (string \<Rightarrow> nat) \<Rightarrow> bool" where
  "analysable reg rank =
     (\<forall>name info. name \<noteq> ''Y'' \<longrightarrow> name \<noteq> ''XSample'' \<longrightarrow> resource_info reg name = Some info \<longrightarrow>
        (\<exists>f fd ps. rd_function info = Some f \<and> functions_info reg f = Some fd
                   \<and> fd_parameters fd = Some ps)
        \<and> (\<forall>p \<in> set (declared_parameters reg name).
              \<exists>n. p = Ref n \<and> (n = ''Y'' \<or> n = ''XSample''
                                \<or> (resource_info reg n \<noteq> None \<and> rank n < rank name))))"



text \<open>
  The names of the resources whose producing function has been called in the session, in
  order. The registry is acyclic when some rank decreases along every parameter reference.
\<close>

definition call_names :: "session \<Rightarrow> string list" where
  "call_names st = map fst (calls st)"

definition calls_cached :: "session \<Rightarrow> bool" where
  "calls_cached st = (distinct (call_names st) \<and> set (call_names st) \<subseteq> dom (self_resources st))"

definition ranked :: "registry \<Rightarrow> (string \<Rightarrow> nat) \<Rightarrow> bool" where
  "ranked reg rank =
     (\<forall>r info f ps n.
        resource_info reg r = Some info \<longrightarrow> rd_function info = Some f \<longrightarrow>
        lookup_parameters reg info f = Some ps \<longrightarrow> Ref n \<in> set ps \<longrightarrow> rank n < rank r)"

definition step_ok :: "string set \<Rightarrow> session \<Rightarrow> 'a outcome \<Rightarrow> bool" where
  "step_ok K st out =
     (distinct (call_names (session_of out))
      \<and> set (call_names (session_of out)) \<subseteq> set (call_names st) \<union> K
      \<and> (case out of
            Raised e st' \<Rightarrow> True
          | Returned x st' \<Rightarrow> set (call_names st') \<subseteq> dom (self_resources st')))"



definition offset_kept :: "int \<Rightarrow> session \<Rightarrow> 'a outcome \<Rightarrow> bool" where
  "offset_kept off st out =
     (self_seed_offset (session_of out) = Some off
      \<and> dom (self_resources st) \<subseteq> dom (self_resources (session_of out)))"

section \<open>Example inputs\<close>

text \<open>
  A small registry in the shape of the JSON file: inputs of \<open>compute\<close>, a seed, the row
  sample with its two outputs, and metafeatures on top of them. \<open>NumericFeatures\<close> is
  produced as \<open>np.nan\<close> by the example functions below.
\<close>

definition given :: "string \<Rightarrow> resource_descr" where
  "given name = \<lparr>rd_function = Some ''given'', rd_parameters = Some [],
                 rd_returns = Some [name], rd_seed_offset = None\<rparr>"

definition by_function :: "string \<Rightarrow> resource_descr" where
  "by_function f = \<lparr>rd_function = Some f, rd_parameters = None,
                    rd_returns = None, rd_seed_offset = None\<rparr>"

definition demo_registry :: registry where
  "demo_registry =
     \<lparr>IDS = [''NumberOfInstances'', ''NumberOfClasses'', ''MeanOfMeans''],
      resource_info = map_of
        [(''X'', given ''X''),
         (''sample_shape'', given ''sample_shape''),
         (''n_folds'', given ''n_folds''),
         (''rows_seed'',
            \<lparr>rd_function = Some ''self._get_seed'', rd_parameters = Some [],
             rd_returns = Some [''rows_seed''], rd_seed_offset = Some 2\<rparr>),
         (''XSample'', by_function ''self._sample_rows''),
         (''YSample'', by_function ''self._sample_rows''),
         (''NumberOfInstances'', by_function ''get_dataset_stats''),
         (''NumberOfFeatures'', by_function ''get_dataset_stats''),
         (''NumberOfClasses'', by_function ''get_class_stats''),
         (''NumericFeatures'', by_function ''get_numeric_features''),
         (''MeanOfMeans'', by_function ''get_mean_of_means''),
         (''ScaledMeanOfMeans'',
            \<lparr>rd_function = Some ''scale'', rd_parameters = Some [Lit 3, Ref ''MeanOfMeans''],
             rd_returns = Some [''ScaledMeanOfMeans''], rd_seed_offset = None\<rparr>)],
      functions_info = map_of
        [(''given'', \<lparr>fd_parameters = Some [], fd_returns = Some [], fd_seed_offset = None\<rparr>),
         (''self._get_seed'',
            \<lparr>fd_parameters = Some [], fd_returns = Some [''seed''], fd_seed_offset = None\<rparr>),
         (''self._sample_rows'',
            \<lparr>fd_parameters = Some [Ref ''X'', Ref ''Y'', Ref ''sample_shape'', Ref ''n_folds'',
                                  Ref ''rows_seed''],
             fd_returns = Some [''XSample'', ''YSample''], fd_seed_offset = None\<rparr>),
         (''get_dataset_stats'',
            \<lparr>fd_parameters = Some [Ref ''XSample''],
             fd_returns = Some [''NumberOfInstances'', ''NumberOfFeatures''],
             fd_seed_offset = None\<rparr>),
         (''get_class_stats'',
            \<lparr>fd_parameters = Some [Ref ''YSample''],
             fd_returns = Some [''NumberOfClasses''], fd_seed_offset = None\<rparr>),
         (''get_numeric_features'',
            \<lparr>fd_parameters = Some [Ref ''XSample''],
             fd_returns = Some [''NumericFeatures''], fd_seed_offset = None\<rparr>),
         (''get_mean_of_means'',
            \<lparr>fd_parameters = Some [Ref ''NumericFeatures''],
             fd_returns = Some [''MeanOfMeans''], fd_seed_offset = None\<rparr>),
         (''scale'',
            \<lparr>fd_parameters = Some [], fd_returns = Some [], fd_seed_offset = None\<rparr>)]\<rparr>"

definition demo_world :: world where
  "demo_world =
     \<lparr>produce = (\<lambda>f k args.
         if f = ''self._sample_rows'' then (case args of [x, y, s, n, sd] \<Rightarrow> Some [x, y] | _ \<Rightarrow> None)
         else if f = ''get_dataset_stats'' then Some [Num 2, Num 2]
         else if f = ''get_class_stats'' then Some [Num 3]
         else if f = ''get_numeric_features'' then Some [NaN]
         else if f = ''get_mean_of_means'' then Some [Num 0]
         else if f = ''scale'' then Some [Num 0]
         else None),
      elapsed = (\<lambda>k. 10 + int k)\<rparr>"

definition two_features :: frame where
  "two_features =
     [\<lparr>col_name = ''a'', col_numeric = True, col_cells = [Some 1, Some 2]\<rparr>,
      \<lparr>col_name = ''b'', col_numeric = False, col_cells = [None, None]\<rparr>]"

definition three_classes :: series where
  "three_classes = \<lparr>ser_name = ''target'', ser_numeric = False,
                     ser_cells = [Some 0, Some 1, Some 2, Some 0, Some 1, Some 2]\<rparr>"

definition fresh_object :: session where
  "fresh_object = \<lparr>self_seed = 0, self_seed_offset = None, self_resources = Map.empty, calls = []\<rparr>"

definition demo_session :: session where
  "demo_session = init_resources fresh_object two_features (Some three_classes)
      [(''a'', NUMERIC), (''b'', CATEGORICAL), (''target'', CATEGORICAL)] [] (ShapeSeq [None, None])
      (Some 7) 0 2"

fun reported :: "(string \<Rightarrow> 'a option) outcome \<Rightarrow> string \<Rightarrow> 'a option" where
  "reported (Returned res st) k = res k"
| "reported (Raised e st) k = None"

fun returned :: "'a outcome \<Rightarrow> 'a option" where
  "returned (Returned x st) = Some x"
| "returned (Raised e st) = None"



definition demo_rank :: "string \<Rightarrow> nat" where
  "demo_rank name =
     (if name \<in> set [''XSample'', ''YSample''] then 1
      else if name \<in> set [''NumberOfInstances'', ''NumberOfFeatures'', ''NumberOfClasses'',
                            ''NumericFeatures''] then 2
      else if name = ''MeanOfMeans'' then 3
      else if name = ''ScaledMeanOfMeans'' then 4
      else 0)"

text \<open>A registry with a cycle, and functions that all return the same two values.\<close>

definition cyclic_registry :: registry where
  "cyclic_registry =
     \<lparr>IDS = [''r''],
      resource_info = map_of
        [(''r'', \<lparr>rd_function = Some ''fr'', rd_parameters = Some [Ref ''P''],
                  rd_returns = Some [''r''], rd_seed_offset = Some 0\<rparr>),
         (''P'', \<lparr>rd_function = Some ''fp'', rd_parameters = Some [Ref ''A'', Ref ''r''],
                  rd_returns = Some [''P''], rd_seed_offset = Some 0\<rparr>),
         (''A'', \<lparr>rd_function = Some ''fa'', rd_parameters = Some [],
                  rd_returns = Some [''A'', ''P''], rd_seed_offset = Some 0\<rparr>)],
      functions_info = map_of []\<rparr>"

definition constant_world :: world where
  "constant_world = \<lparr>produce = (\<lambda>f k args. Some [Num 1, Num 2]), elapsed = (\<lambda>k. 1)\<rparr>"

text \<open>A descriptor whose own parameters are a literal followed by the target.\<close>

definition literal_registry :: registry where
  "literal_registry =
     \<lparr>IDS = [''Depth1ErrRate''],
      resource_info = map_of
        [(''Depth1ErrRate'',
            \<lparr>rd_function = Some ''get_decision_tree'',
             rd_parameters = Some [Lit 1, Ref ''Y''],
             rd_returns = Some [''Depth1ErrRate''], rd_seed_offset = None\<rparr>)],
      functions_info = map_of
        [(''get_decision_tree'',
            \<lparr>fd_parameters = Some [], fd_returns = Some [''ErrRate''],
             fd_seed_offset = None\<rparr>)]\<rparr>"


section \<open>Auxiliary facts\<close>

subsection \<open>The target-dependence analysis and the stack depth\<close>

lemma any_target_dependent_mono_step:
  assumes step: "\<And>p b. is_target_dependent reg d p = Inr b \<Longrightarrow> is_target_dependent reg d' p = Inr b"
  shows "any_target_dependent reg d ps = Inr b \<Longrightarrow> any_target_dependent reg d' ps = Inr b"
proof (induction ps)
  case Nil
  then show ?case by simp
next
  case (Cons p ps)
  from Cons.prems obtain bp where bp: "is_target_dependent reg d p = Inr bp"
    by (cases "is_target_dependent reg d p") auto
  show ?case
  proof (cases bp)
    case True
    with bp Cons.prems step [OF bp] show ?thesis by simp
  next
    case False
    with bp Cons.prems have "any_target_dependent reg d ps = Inr b" by simp
    with Cons.IH have "any_target_dependent reg d' ps = Inr b" .
    with False step [OF bp] show ?thesis by simp
  qed
qed

lemma is_target_dependent_Suc_Ref:
  assumes "name \<noteq> ''Y''" "name \<noteq> ''XSample''" "resource_info reg name = Some info"
    and "any_target_dependent reg d (case rd_parameters info of None \<Rightarrow> [] | Some ps \<Rightarrow> ps) = Inr b1"
  shows "is_target_dependent reg (Suc d) (Ref name) =
           (if b1 then Inr True
            else (case rd_function info of
                    None \<Rightarrow> Inl KeyError
                  | Some f \<Rightarrow>
                 (case functions_info reg f of
                    None \<Rightarrow> Inl KeyError
                  | Some fd \<Rightarrow>
                 (case fd_parameters fd of
                    None \<Rightarrow> Inl KeyError
                  | Some ps \<Rightarrow> any_target_dependent reg d ps))))"
  using assms by simp

lemma is_target_dependent_Suc_cases:
  assumes "is_target_dependent reg (Suc d) (Ref name) = Inr b"
    and "name \<noteq> ''Y''" "name \<noteq> ''XSample''"
  obtains info where "resource_info reg name = Some info"
    and "any_target_dependent reg d (case rd_parameters info of None \<Rightarrow> [] | Some ps \<Rightarrow> ps) = Inr True"
    and "b"
  | info f fd ps where "resource_info reg name = Some info"
    and "any_target_dependent reg d (case rd_parameters info of None \<Rightarrow> [] | Some ps \<Rightarrow> ps) = Inr False"
    and "rd_function info = Some f" "functions_info reg f = Some fd" "fd_parameters fd = Some ps"
    and "any_target_dependent reg d ps = Inr b"
proof -
  from assms obtain info where info: "resource_info reg name = Some info"
    by (cases "resource_info reg name") auto
  let ?ps1 = "case rd_parameters info of None \<Rightarrow> [] | Some ps \<Rightarrow> ps"
  from assms info obtain b1 where b1: "any_target_dependent reg d ?ps1 = Inr b1"
    by (cases "any_target_dependent reg d ?ps1") auto
  note eq = is_target_dependent_Suc_Ref [OF assms(2,3) info b1]
  show thesis
  proof (cases b1)
    case True
    with eq assms(1) have b by simp
    with that(1) [OF info] b1 True show thesis by simp
  next
    case False
    with eq assms(1) obtain f fd ps where "rd_function info = Some f"
      "functions_info reg f = Some fd" "fd_parameters fd = Some ps"
      "any_target_dependent reg d ps = Inr b"
      by (auto split: option.splits)
    with that(2) [OF info] b1 False show thesis by simp
  qed
qed

lemma is_target_dependent_mono:
  "is_target_dependent reg d p = Inr b \<Longrightarrow> d \<le> d' \<Longrightarrow> is_target_dependent reg d' p = Inr b"
proof (induction d arbitrary: d' p b)
  case 0
  then show ?case by simp
next
  case (Suc d)
  from Suc.prems(2) obtain e where d': "d' = Suc e" and le: "d \<le> e"
    by (cases d') auto
  have any: "any_target_dependent reg d ps = Inr c \<Longrightarrow> any_target_dependent reg e ps = Inr c" for ps c
    by (rule any_target_dependent_mono_step [where d = d]) (rule Suc.IH [OF _ le])
  show ?case
  proof (cases p)
    case (Lit x)
    with Suc.prems(1) show ?thesis by simp
  next
    case (Ref name)
    show ?thesis
    proof (cases "name = ''Y'' \<or> name = ''XSample''")
      case True
      with Suc.prems(1) Ref d' show ?thesis by auto
    next
      case False
      then have ny: "name \<noteq> ''Y''" and nx: "name \<noteq> ''XSample''" by auto
      from Suc.prems(1) Ref have run: "is_target_dependent reg (Suc d) (Ref name) = Inr b" by simp
      from run ny nx show ?thesis
      proof (cases rule: is_target_dependent_Suc_cases)
        case (1 info)
        from is_target_dependent_Suc_Ref [OF ny nx 1(1) any [OF 1(2)]] 1(3) Ref d'
        show ?thesis by simp
      next
        case (2 info f fd ps)
        from is_target_dependent_Suc_Ref [OF ny nx 2(1) any [OF 2(2)]] 2(3,4,5) any [OF 2(6)] Ref d'
        show ?thesis by simp
      qed
    qed
  qed
qed










lemma literal_parameter_never_returns:
  "is_target_dependent literal_registry d (Ref ''Depth1ErrRate'') \<noteq> Inr b"
proof (cases d)
  case 0
  then show ?thesis by simp
next
  case (Suc e)
  then show ?thesis
    by (cases e) (simp_all add: literal_registry_def)
qed

text \<open>On an analysable registry the analysis returns, at a depth of the rank plus two.\<close>

lemma analysable_function:
  "analysable reg rank \<Longrightarrow> name \<noteq> ''Y'' \<Longrightarrow> name \<noteq> ''XSample''
     \<Longrightarrow> resource_info reg name = Some info
     \<Longrightarrow> \<exists>f fd ps. rd_function info = Some f \<and> functions_info reg f = Some fd
                   \<and> fd_parameters fd = Some ps"
  by (simp add: analysable_def)

lemma analysable_parameter:
  "analysable reg rank \<Longrightarrow> name \<noteq> ''Y'' \<Longrightarrow> name \<noteq> ''XSample''
     \<Longrightarrow> resource_info reg name = Some info
     \<Longrightarrow> p \<in> set (declared_parameters reg name)
     \<Longrightarrow> \<exists>n. p = Ref n \<and> (n = ''Y'' \<or> n = ''XSample''
                                \<or> (resource_info reg n \<noteq> None \<and> rank n < rank name))"
  by (simp add: analysable_def)


lemma any_target_dependent_returns:
  "\<forall>p \<in> set ps. \<exists>b. is_target_dependent reg d p = Inr b
     \<Longrightarrow> \<exists>b. any_target_dependent reg d ps = Inr b"
proof (induction ps)
  case Nil
  have "any_target_dependent reg d [] = Inr False" by simp
  then show ?case by (rule exI)
next
  case (Cons p ps)
  then obtain b where b: "is_target_dependent reg d p = Inr b" by auto
  from Cons obtain c where c: "any_target_dependent reg d ps = Inr c" by auto
  have "any_target_dependent reg d (p # ps) = Inr (if b then True else c)"
    using b c by simp
  then show ?case by (rule exI)
qed

lemma is_target_dependent_returns:
  fixes rank :: "string \<Rightarrow> nat"
  assumes ok: "analysable reg rank"
  shows "name = ''Y'' \<or> name = ''XSample'' \<or> resource_info reg name \<noteq> None
           \<Longrightarrow> \<exists>b. is_target_dependent reg (rank name + 2) (Ref name) = Inr b"
proof (induction "rank name" arbitrary: name rule: less_induct)
  case less
  show ?case
  proof (cases "name = ''Y'' \<or> name = ''XSample''")
    case True
    then have "is_target_dependent reg (Suc (Suc (rank name))) (Ref name) = Inr (name = ''Y'')"
      by auto
    moreover have "rank name + 2 = Suc (Suc (rank name))" by simp
    ultimately show ?thesis by (simp only: exI)
  next
    case False
    then have ny: "name \<noteq> ''Y''" and nx: "name \<noteq> ''XSample''" by auto
    with less.prems obtain info where info: "resource_info reg name = Some info" by auto
    from analysable_function [OF ok ny nx info]
    obtain f fd ps2 where fn: "rd_function info = Some f"
      "functions_info reg f = Some fd" "fd_parameters fd = Some ps2"
      by blast
    let ?ps1 = "case rd_parameters info of None \<Rightarrow> [] | Some ps \<Rightarrow> ps"
    have decl: "declared_parameters reg name = ?ps1 @ ps2"
      using info fn by (simp add: declared_parameters_def)
    have each: "\<exists>b. is_target_dependent reg (Suc (rank name)) p = Inr b"
      if "p \<in> set (declared_parameters reg name)" for p
    proof -
      from analysable_parameter [OF ok ny nx info that]
      obtain n where p: "p = Ref n"
        and n: "n = ''Y'' \<or> n = ''XSample'' \<or> (resource_info reg n \<noteq> None \<and> rank n < rank name)"
        by blast
      show ?thesis
      proof (cases "n = ''Y'' \<or> n = ''XSample''")
        case True
        then have "is_target_dependent reg (Suc (rank name)) (Ref n) = Inr (n = ''Y'')"
          by auto
        then show ?thesis unfolding p by (rule exI)
      next
        case False
        with n have reg: "resource_info reg n \<noteq> None" and lt: "rank n < rank name" by auto
        from less.hyps [OF lt] reg obtain b where b: "is_target_dependent reg (rank n + 2) (Ref n) = Inr b"
          by blast
        from lt have "rank n + 2 \<le> Suc (rank name)" by simp
        from is_target_dependent_mono [OF b this] show ?thesis
          unfolding p by (rule exI)
      qed
    qed
    have "\<forall>p \<in> set ?ps1. \<exists>b. is_target_dependent reg (Suc (rank name)) p = Inr b"
    proof
      fix p assume "p \<in> set ?ps1"
      then have "p \<in> set (declared_parameters reg name)" by (simp add: decl)
      then show "\<exists>b. is_target_dependent reg (Suc (rank name)) p = Inr b" by (rule each)
    qed
    then have "\<exists>b. any_target_dependent reg (Suc (rank name)) ?ps1 = Inr b"
      by (rule any_target_dependent_returns)
    then obtain b1 where b1: "any_target_dependent reg (Suc (rank name)) ?ps1 = Inr b1" by blast
    have "\<forall>p \<in> set ps2. \<exists>b. is_target_dependent reg (Suc (rank name)) p = Inr b"
    proof
      fix p assume "p \<in> set ps2"
      then have "p \<in> set (declared_parameters reg name)" by (simp add: decl)
      then show "\<exists>b. is_target_dependent reg (Suc (rank name)) p = Inr b" by (rule each)
    qed
    then have "\<exists>b. any_target_dependent reg (Suc (rank name)) ps2 = Inr b"
      by (rule any_target_dependent_returns)
    then obtain b2 where b2: "any_target_dependent reg (Suc (rank name)) ps2 = Inr b2" by blast
    from is_target_dependent_Suc_Ref [OF ny nx info b1] fn b2
    have "is_target_dependent reg (Suc (Suc (rank name))) (Ref name) = Inr (if b1 then True else b2)"
      by (simp del: is_target_dependent.simps)
    moreover have "rank name + 2 = Suc (Suc (rank name))" by simp
    ultimately show ?thesis by (simp only: exI)
  qed
qed

subsection \<open>Storing results and unfolding the evaluator\<close>

lemma foldl_store_fields:
  "calls (foldl (\<lambda>s (n, v). s\<lparr>self_resources := (self_resources s)(n \<mapsto> (v, t))\<rparr>) st kvs) = calls st
   \<and> self_seed (foldl (\<lambda>s (n, v). s\<lparr>self_resources := (self_resources s)(n \<mapsto> (v, t))\<rparr>) st kvs) = self_seed st
   \<and> self_seed_offset (foldl (\<lambda>s (n, v). s\<lparr>self_resources := (self_resources s)(n \<mapsto> (v, t))\<rparr>) st kvs)
       = self_seed_offset st"
  by (induction kvs arbitrary: st) auto

lemma foldl_store_resources:
  "self_resources (foldl (\<lambda>s (n, v). s\<lparr>self_resources := (self_resources s)(n \<mapsto> (v, t))\<rparr>) st kvs) k
     = (case map_of (rev kvs) k of None \<Rightarrow> self_resources st k | Some v \<Rightarrow> Some (v, t))"
  by (induction kvs arbitrary: st) (auto simp: map_add_def split: option.splits)

lemma calls_store_results: "calls (store_results st rs vs t) = calls st"
  by (simp add: store_results_def foldl_store_fields)

lemma resources_store_results:
  "self_resources (store_results st rs vs t) k
     = (case map_of (rev (zip rs vs)) k of None \<Rightarrow> self_resources st k | Some v \<Rightarrow> Some (v, t))"
  by (simp add: store_results_def foldl_store_resources)

lemma map_of_rev_zip_dom:
  assumes "length rs \<le> length vs" "k \<in> set rs"
  shows "\<exists>v. map_of (rev (zip rs vs)) k = Some v \<and> v \<in> set vs"
proof -
  from assms have "k \<in> fst ` set (rev (zip rs vs))"
    by (auto simp: set_zip in_set_conv_nth image_iff)
  then obtain v where v: "map_of (rev (zip rs vs)) k = Some v"
    by (cases "map_of (rev (zip rs vs)) k") (auto simp: map_of_eq_None_iff)
  then have "(k, v) \<in> set (rev (zip rs vs))" by (rule map_of_SomeD)
  then have "v \<in> set vs" by (auto dest: set_zip_rightD)
  with v show ?thesis by blast
qed

lemma stored_outputs_time:
  assumes "length rs \<le> length vs" "k \<in> set rs"
  shows "\<exists>v. self_resources (store_results st rs vs t) k = Some (v, t) \<and> v \<in> set vs"
  using map_of_rev_zip_dom [OF assms] by (auto simp: resources_store_results)

lemma zip_take_right: "zip rs vs = zip rs (take (length rs) vs)"
proof (induction rs arbitrary: vs)
  case Nil
  then show ?case by simp
next
  case (Cons r rs)
  then show ?case by (cases vs) auto
qed

lemma map_of_rev_distinct: "distinct (map fst xs) \<Longrightarrow> map_of (rev xs) = map_of xs"
proof (induction xs)
  case Nil
  then show ?case by simp
next
  case (Cons a xs)
  obtain k v where a: "a = (k, v)" by (cases a)
  from Cons.prems a have "map_of xs k = None"
    by (simp add: map_of_eq_None_iff)
  with Cons a show ?case
    by (auto simp: fun_eq_iff map_add_def split: option.splits)
qed

lemma stored_outputs_nth:
  assumes "length rs \<le> length vs" "distinct rs" "i < length rs"
  shows "self_resources (store_results st rs vs t) (rs ! i) = Some (vs ! i, t)"
proof -
  let ?vs = "take (length rs) vs"
  have len: "length rs = length ?vs" using assms(1) by simp
  have d: "distinct (map fst (zip rs ?vs))" using assms(2) len by simp
  have "map_of (rev (zip rs ?vs)) (rs ! i) = map_of (zip rs ?vs) (rs ! i)"
    using d by (simp only: map_of_rev_distinct)
  also have "\<dots> = Some (?vs ! i)"
    using len assms(2,3) by (simp add: map_of_zip_nth)
  finally have "map_of (rev (zip rs vs)) (rs ! i) = Some (vs ! i)"
    using assms(3) zip_take_right [of rs vs] by simp
  then show ?thesis by (simp add: resources_store_results)
qed

lemma get_resource_hit:
  "self_resources st r = Some cached \<Longrightarrow> get_resource reg w (Suc d) st r = Returned cached st"
  by (simp add: return_cached_def)

lemma get_resource_miss:
  assumes "self_resources st r = None" "resource_info reg r = Some info"
    "rd_function info = Some f" "lookup_returns reg info f = Some returns"
  shows "get_resource reg w (Suc d) st r =
     (case get_parameters reg w d st r of
        Raised e st1 \<Rightarrow> Raised e st1
      | Returned (None, total_time) st1 \<Rightarrow>
          return_cached (store_results st1 returns (replicate (length returns) NaN) TNaN) r
      | Returned (Some parameters, total_time) st1 \<Rightarrow>
          (case call_function w st1 f parameters of
             Inl e \<Rightarrow> Raised e (log_call st1 r f)
           | Inr results \<Rightarrow>
               return_cached
                 (store_results (log_call st1 r f) returns results
                    (tadd total_time (Tm (elapsed w (length (calls st1)))))) r))"
  using assms
  by (simp split: outcome.splits option.splits prod.splits sum.splits)

lemma get_parameters_unfold:
  assumes "resource_info reg r = Some info" "rd_function info = Some f"
    "lookup_parameters reg info f = Some parameters" "assign_seed_offset reg info f st = Inr st0"
  shows "get_parameters reg w d st r = get_parameters_loop reg w d st0 parameters [] (Tm 0)"
  using assms by simp

lemma get_parameters_loop_append:
  "get_parameters_loop reg w d st (pre @ rest) acc t =
     (case get_parameters_loop reg w d st pre acc t of
        Raised e st1 \<Rightarrow> Raised e st1
      | Returned (None, t1) st1 \<Rightarrow> Returned (None, t1) st1
      | Returned (Some acc1, t1) st1 \<Rightarrow> get_parameters_loop reg w d st1 rest acc1 t1)"
  by (induction pre arbitrary: st acc t)
     (auto split: outcome.splits option.splits prod.splits param.splits)

subsection \<open>Parameters that are already resolved\<close>





subsection \<open>Evaluating the example inputs\<close>

lemmas demo_defs = demo_registry_def demo_world_def demo_session_def by_function_def given_def
  init_resources_def set_seed_def fresh_object_def two_features_def three_classes_def
  lookup_returns_def lookup_parameters_def assign_seed_offset_def call_function_def get_seed_def
  store_results_def log_call_def return_cached_def

lemma returned_session: "returned out = Some x \<Longrightarrow> out = Returned x (session_of out)"
  by (cases out) auto

lemmas validate_defs = validate_compute_arguments_def validate_column_types_def
  validate_metafeature_ids_def validate_sample_shape_def validate_n_folds_def valid_type_def
  column_types_or_inferred_def metafeature_ids_or_all_def sample_shape_or_unbounded_def
  infer_column_types_def dtype_name_def list_metafeatures_landmarking_def

subsection \<open>The start of a session\<close>

lemma init_resources_forgets:
  "init_resources (self\<lparr>self_resources := old, calls := made\<rparr>) X Y ct ids shape seed rnd nf
     = init_resources self X Y ct ids shape seed rnd nf"
  by (simp add: init_resources_def set_seed_def)

subsection \<open>The loop of \<open>compute\<close>\<close>

lemma compute_one_no_target:
  assumes "is_target_dependent reg d (Ref mf) = Inr True"
  shows "compute_one reg w d None ct st mf = Returned (Str NO_TARGETS, None) st"
  using assms by (simp add: compute_one_def)

lemma compute_one_numeric_target:
  assumes "is_target_dependent reg d (Ref mf) = Inr True" "map_of ct (ser_name y) = Some NUMERIC"
  shows "compute_one reg w d (Some y) ct st mf = Returned (Str NUMERIC_TARGETS, None) st"
  using assms by (simp add: compute_one_def)

lemma compute_loop_gated:
  assumes gate: "\<And>s. compute_one reg w d Y ct s mf = Returned g s"
  shows "compute_loop reg w d Y ct st ids acc = Returned result st'
           \<Longrightarrow> mf \<in> set ids \<or> acc mf = Some g \<Longrightarrow> result mf = Some g"
proof (induction ids arbitrary: st acc)
  case Nil
  then show ?case by simp
next
  case (Cons a ids)
  from Cons.prems(1) obtain r st1 where one: "compute_one reg w d Y ct st a = Returned r st1"
    and rest: "compute_loop reg w d Y ct st1 ids (acc(a \<mapsto> r)) = Returned result st'"
    by (cases "compute_one reg w d Y ct st a") auto
  have "mf \<in> set ids \<or> (acc(a \<mapsto> r)) mf = Some g"
  proof (cases "a = mf")
    case True
    with one gate [of st] show ?thesis by simp
  next
    case False
    with Cons.prems(2) show ?thesis by auto
  qed
  with Cons.IH [OF rest] show ?case .
qed

lemma compute_Returned:
  assumes "compute reg w d self X Y column_types metafeature_ids sample_shape seed rnd n_folds
             = Returned result st'"
  shows "compute_loop reg w d Y (column_types_or_inferred X Y column_types)
           (init_resources self X Y (column_types_or_inferred X Y column_types)
              (metafeature_ids_or_all reg metafeature_ids)
              (sample_shape_or_unbounded sample_shape) seed rnd n_folds)
           (metafeature_ids_or_all reg metafeature_ids) Map.empty = Returned result st'"
  using assms by (simp add: compute_def Let_def split: sum.splits)

lemma Returned_the: "returned out \<noteq> None \<Longrightarrow> \<exists>x st'. out = Returned x st'"
  by (cases out) auto

lemmas compute_defs = compute_def compute_one_def validate_defs Let_def

subsection \<open>Calls are recorded once\<close>

lemma dom_store_results:
  "dom (self_resources st) \<subseteq> dom (self_resources (store_results st rs vs t))"
  by (auto simp: resources_store_results split: option.splits)

lemma call_names_store_results: "call_names (store_results st rs vs t) = call_names st"
  by (simp add: call_names_def calls_store_results)

lemma call_names_log_call: "call_names (log_call st r f) = call_names st @ [r]"
  by (simp add: call_names_def log_call_def)

lemma resources_log_call: "self_resources (log_call st r f) = self_resources st"
  by (simp add: log_call_def)

lemma assign_seed_offset_keeps:
  "assign_seed_offset reg info f st = Inr st0
     \<Longrightarrow> calls st0 = calls st \<and> self_resources st0 = self_resources st"
  by (auto simp: assign_seed_offset_def split: option.splits)

lemma step_ok_Raised:
  "distinct (call_names st') \<Longrightarrow> set (call_names st') \<subseteq> set (call_names st) \<union> K
     \<Longrightarrow> step_ok K st (Raised e st')"
  by (simp add: step_ok_def)

lemma step_ok_same:
  "calls_cached st \<Longrightarrow> step_ok K st (Returned x st)"
  "calls_cached st \<Longrightarrow> step_ok K st (Raised e st)"
  by (auto simp: step_ok_def calls_cached_def)

lemma step_ok_return_cached:
  assumes "distinct (call_names st')" "set (call_names st') \<subseteq> set (call_names st) \<union> K"
    and "set (call_names st') \<subseteq> insert r (dom (self_resources st'))"
  shows "step_ok K st (return_cached st' r)"
proof (cases "self_resources st' r")
  case None
  with assms show ?thesis by (simp add: return_cached_def step_ok_def)
next
  case (Some c)
  then have "r \<in> dom (self_resources st')" by auto
  with assms Some show ?thesis by (auto simp: return_cached_def step_ok_def)
qed

lemma step_ok_mono: "step_ok K st out \<Longrightarrow> K \<subseteq> K' \<Longrightarrow> step_ok K' st out"
  unfolding step_ok_def by blast

lemma step_ok_Returned_cached: "step_ok K st (Returned x st1) \<Longrightarrow> calls_cached st1"
  by (simp add: step_ok_def calls_cached_def)

lemma step_ok_trans:
  "step_ok K st (Returned x st1) \<Longrightarrow> step_ok K st1 out \<Longrightarrow> step_ok K st out"
  unfolding step_ok_def by (cases out) auto

lemma get_parameters_loop_ok:
  fixes rank :: "string \<Rightarrow> nat"
  assumes res: "\<And>st n. calls_cached st
                  \<Longrightarrow> step_ok {q. rank q \<le> rank n} st (get_resource reg w d st n)"
  shows "calls_cached st \<Longrightarrow> \<forall>n. Ref n \<in> set ps \<longrightarrow> rank n < k
           \<Longrightarrow> step_ok {q. rank q < k} st (get_parameters_loop reg w d st ps acc t)"
proof (induction ps arbitrary: st acc t)
  case Nil
  then show ?case by (simp add: step_ok_same)
next
  case (Cons p ps)
  have below: "\<forall>n. Ref n \<in> set ps \<longrightarrow> rank n < k" using Cons.prems(2) by simp
  show ?case
  proof (cases p)
    case (Lit x)
    with Cons.IH [OF Cons.prems(1) below] show ?thesis by simp
  next
    case (Ref n)
    with Cons.prems(2) have n: "rank n < k" by simp
    then have K: "{q. rank q \<le> rank n} \<subseteq> {q. rank q < k}" by auto
    note r = step_ok_mono [OF res [OF Cons.prems(1), of n] K]
    show ?thesis
    proof (cases "get_resource reg w d st n")
      case (Raised e st1)
      with r have "step_ok {q. rank q < k} st (Raised e st1 :: (pyval list option \<times> ptime) outcome)"
        by (simp add: step_ok_def)
      with Raised Ref show ?thesis by simp
    next
      case (Returned x st1)
      obtain v tv where x: "x = (v, tv)" by (cases x)
      from r Returned have r1: "step_ok {q. rank q < k} st (Returned x st1)" by simp
      then have c1: "calls_cached st1" by (rule step_ok_Returned_cached)
      show ?thesis
      proof (cases "v = NaN")
        case True
        from r1 have "step_ok {q. rank q < k} st
                        (Returned (None, t) st1 :: (pyval list option \<times> ptime) outcome)"
          by (simp add: step_ok_def)
        with Returned Ref x True show ?thesis by simp
      next
        case False
        from step_ok_trans [OF r1 Cons.IH [OF c1 below, of "acc @ [v]" "tadd t tv"]]
        have "step_ok {q. rank q < k} st
                (get_parameters_loop reg w d st1 ps (acc @ [v]) (tadd t tv))" .
        with Returned Ref x False show ?thesis by simp
      qed
    qed
  qed
qed

lemma get_resource_ok:
  fixes rank :: "string \<Rightarrow> nat"
  assumes ranked: "ranked reg rank"
  shows "calls_cached st \<Longrightarrow> step_ok {q. rank q \<le> rank r} st (get_resource reg w d st r)"
proof (induction d arbitrary: st r)
  case 0
  then show ?case by (simp add: step_ok_same)
next
  case (Suc d)
  note cc = Suc.prems
  show ?case
  proof (cases "self_resources st r")
    case (Some c)
    from get_resource_hit [OF Some] cc show ?thesis by (simp add: step_ok_same del: get_resource.simps)
  next
    case None
    show ?thesis
    proof (cases "\<exists>info f returns. resource_info reg r = Some info \<and> rd_function info = Some f
                    \<and> lookup_returns reg info f = Some returns")
      case False
      with None have "get_resource reg w (Suc d) st r = Raised KeyError st"
        by (auto split: option.splits)
      with cc show ?thesis by (simp add: step_ok_same del: get_resource.simps)
    next
      case True
      then obtain info f returns where info: "resource_info reg r = Some info"
        "rd_function info = Some f" and returns: "lookup_returns reg info f = Some returns"
        by blast
      note gr = get_resource_miss [OF None info returns, of w d]
      from cc None have fresh: "r \<notin> set (call_names st)"
        by (auto simp: calls_cached_def)
      have gp: "step_ok {q. rank q < rank r} st (get_parameters reg w d st r)"
      proof (cases "lookup_parameters reg info f")
        case None
        with info cc show ?thesis by (simp add: step_ok_same)
      next
        case (Some ps)
        show ?thesis
        proof (cases "assign_seed_offset reg info f st")
          case (Inl e)
          with info Some cc show ?thesis by (simp add: step_ok_same)
        next
          case (Inr st0)
          from assign_seed_offset_keeps [OF Inr] cc
          have c0: "calls_cached st0" and same: "call_names st0 = call_names st"
            by (simp_all add: calls_cached_def call_names_def)
          from ranked info Some have below: "\<forall>n. Ref n \<in> set ps \<longrightarrow> rank n < rank r"
            unfolding ranked_def by blast
          have "step_ok {q. rank q < rank r} st0 (get_parameters_loop reg w d st0 ps [] (Tm 0))"
            by (rule get_parameters_loop_ok [OF Suc.IH c0 below])
          then have "step_ok {q. rank q < rank r} st (get_parameters_loop reg w d st0 ps [] (Tm 0))"
            by (simp add: step_ok_def same)
          with get_parameters_unfold [OF info Some Inr] show ?thesis by simp
        qed
      qed
      show ?thesis
      proof (cases "get_parameters reg w d st r")
        case (Raised e st1)
        with gp have "step_ok {q. rank q \<le> rank r} st (Raised e st1 :: (pyval \<times> ptime) outcome)"
          by (auto simp: step_ok_def)
        with gr Raised show ?thesis by simp
      next
        case (Returned x st1)
        obtain parameters total_time where x: "x = (parameters, total_time)" by (cases x)
        from gp Returned have d1: "distinct (call_names st1)"
          and s1: "set (call_names st1) \<subseteq> set (call_names st) \<union> {q. rank q < rank r}"
          and m1: "set (call_names st1) \<subseteq> dom (self_resources st1)"
          by (simp_all add: step_ok_def)
        from s1 fresh have r1: "r \<notin> set (call_names st1)" by auto
        from s1 have s1': "set (call_names st1) \<subseteq> set (call_names st) \<union> {q. rank q \<le> rank r}"
          by auto
        show ?thesis
        proof (cases parameters)
          case None
          let ?st3 = "store_results st1 returns (replicate (length returns) NaN) TNaN"
          have "set (call_names st1) \<subseteq> insert r (dom (self_resources ?st3))"
            using m1 dom_store_results [of st1 returns "replicate (length returns) NaN" TNaN]
            by blast
          with d1 s1' have "step_ok {q. rank q \<le> rank r} st (return_cached ?st3 r)"
            by (intro step_ok_return_cached) (simp_all add: call_names_store_results)
          with gr Returned x None show ?thesis by simp
        next
          case (Some args)
          let ?st2 = "log_call st1 r f"
          have d2: "distinct (call_names ?st2)"
            using d1 r1 by (simp add: call_names_log_call)
          have s2: "set (call_names ?st2) \<subseteq> set (call_names st) \<union> {q. rank q \<le> rank r}"
            using s1' by (auto simp: call_names_log_call)
          have m2: "set (call_names ?st2) \<subseteq> insert r (dom (self_resources ?st2))"
            using m1 by (auto simp: call_names_log_call resources_log_call)
          show ?thesis
          proof (cases "call_function w st1 f args")
            case (Inl e)
            from d2 s2 have "step_ok {q. rank q \<le> rank r} st (Raised e ?st2 :: (pyval \<times> ptime) outcome)"
              by (rule step_ok_Raised)
            with gr Returned x Some Inl show ?thesis by simp
          next
            case (Inr results)
            let ?t = "tadd total_time (Tm (elapsed w (length (calls st1))))"
            let ?st3 = "store_results ?st2 returns results ?t"
            have "set (call_names ?st2) \<subseteq> insert r (dom (self_resources ?st3))"
              using m2 dom_store_results [of ?st2 returns results ?t]
              by blast
            with d2 s2 have "step_ok {q. rank q \<le> rank r} st (return_cached ?st3 r)"
              by (intro step_ok_return_cached) (simp_all add: call_names_store_results)
            with gr Returned x Some Inr show ?thesis by simp
          qed
        qed
      qed
    qed
  qed
qed


lemma compute_one_ok:
  fixes rank :: "string \<Rightarrow> nat"
  assumes ranked: "ranked reg rank" and cc: "calls_cached st"
  shows "step_ok UNIV st (compute_one reg w d Y ct st mf)"
proof -
  have res: "step_ok UNIV st (get_resource reg w d st mf)"
    by (rule step_ok_mono [OF get_resource_ok [OF ranked cc]]) simp
  have wrap: "step_ok UNIV st
                (case get_resource reg w d st mf of
                   Raised e st1 \<Rightarrow> Raised e st1
                 | Returned (v, compute_time) st1 \<Rightarrow> Returned (v, Some compute_time) st1)"
    using res by (cases "get_resource reg w d st mf") (auto simp: step_ok_def)
  show ?thesis
    unfolding compute_one_def
    using wrap cc
    by (auto simp: step_ok_same split: sum.splits bool.splits option.splits)
qed

lemma compute_loop_ok:
  fixes rank :: "string \<Rightarrow> nat"
  assumes ranked: "ranked reg rank"
  shows "calls_cached st \<Longrightarrow> step_ok UNIV st (compute_loop reg w d Y ct st ids acc)"
proof (induction ids arbitrary: st acc)
  case Nil
  then show ?case by (simp add: step_ok_same)
next
  case (Cons mf ids)
  note one = compute_one_ok [OF ranked Cons.prems, of w d Y ct mf]
  show ?case
  proof (cases "compute_one reg w d Y ct st mf")
    case (Raised e st1)
    with one have "step_ok UNIV st
                     (Raised e st1 :: (string \<Rightarrow> (pyval \<times> ptime option) option) outcome)"
      by (simp add: step_ok_def)
    with Raised show ?thesis by simp
  next
    case (Returned x st1)
    with one have r1: "step_ok UNIV st (Returned x st1)" by simp
    from step_ok_trans [OF r1 Cons.IH [OF step_ok_Returned_cached [OF r1]]] Returned
    show ?thesis by simp
  qed
qed

lemma calls_cached_init: "calls_cached (init_resources self X Y ct ids shape seed rnd nf)"
  by (simp add: calls_cached_def call_names_def init_resources_def)

lemma compute_calls_distinct:
  fixes rank :: "string \<Rightarrow> nat"
  assumes ranked: "ranked reg rank" and self: "distinct (call_names self)"
  shows "distinct (call_names (session_of
           (compute reg w d self X Y column_types metafeature_ids sample_shape seed rnd n_folds)))"
proof -
  let ?loop = "compute_loop reg w d Y (column_types_or_inferred X Y column_types)
      (init_resources self X Y (column_types_or_inferred X Y column_types)
         (metafeature_ids_or_all reg metafeature_ids)
         (sample_shape_or_unbounded sample_shape) seed rnd n_folds)
      (metafeature_ids_or_all reg metafeature_ids) Map.empty"
  have "distinct (call_names (session_of ?loop))"
    using compute_loop_ok [OF ranked calls_cached_init] by (simp add: step_ok_def)
  with self show ?thesis
    by (simp add: compute_def Let_def split: sum.splits)
qed

lemma ranked_demo: "ranked demo_registry demo_rank"
  unfolding ranked_def
  by (auto simp: demo_registry_def demo_rank_def lookup_parameters_def by_function_def given_def
        split: if_splits)

subsection \<open>The seed offset through nested resolutions\<close>




lemma offset_kept_session:
  "session_of out' = session_of out \<Longrightarrow> offset_kept off st out \<Longrightarrow> offset_kept off st out'"
  by (simp add: offset_kept_def)






section \<open>Properties of the validators\<close>

text \<open>
  C7. When some requested names are not in the registry, validation raises one
  \<open>ValueError\<close> whose message is formatted from the list of all of them, in request
  order (not just the first); when every requested name is in the registry, or no list
  is given, it raises nothing.
\<close>

theorem validate_metafeature_ids_collects_all:
  "validate_metafeature_ids reg (Some ids) =
     (if \<forall>mf \<in> set ids. resource_info reg mf \<noteq> None then Inr ()
      else Inl (ValueError (InvalidMetafeatures (filter (\<lambda>mf. resource_info reg mf = None) ids))))
   \<and> set (filter (\<lambda>mf. resource_info reg mf = None) ids) = {mf \<in> set ids. resource_info reg mf = None}
   \<and> validate_metafeature_ids reg None = Inr ()"
  by (auto simp: validate_metafeature_ids_def Let_def filter_empty_conv)

theorem validate_metafeature_ids_collects_all_witness:
  "validate_metafeature_ids demo_registry (Some [''Foo'', ''Bar'', ''NumberOfInstances''])
     = Inl (ValueError (InvalidMetafeatures [''Foo'', ''Bar'']))
   \<and> validate_metafeature_ids demo_registry (Some [''NumberOfInstances'']) = Inr ()"
  using validate_metafeature_ids_collects_all [of demo_registry "[''Foo'', ''Bar'', ''NumberOfInstances'']"]
    validate_metafeature_ids_collects_all [of demo_registry "[''NumberOfInstances'']"]
  by (simp add: demo_registry_def by_function_def given_def)

text \<open>
  C6. \<open>_validate_sample_shape\<close> accepts a sample shape exactly when it is \<open>None\<close>, or
  a tuple or list of two elements in which a row bound, when given, is at least 1 and,
  when a target is present, at least the number of distinct target values times
  \<open>n_folds\<close>, and a column bound, when given, is at least 1. Everything else raises a
  \<open>ValueError\<close>; in particular the shape \<open>(4, None)\<close> with three classes and two folds does.
\<close>

theorem validate_sample_shape_raises:
  "(validate_sample_shape Y sample_shape n_folds = Inr ()) =
     (sample_shape = ShapeNone \<or>
      (\<exists>r c. sample_shape = ShapeSeq [r, c]
         \<and> (\<forall>n. r = Some n \<longrightarrow> 1 \<le> n \<and> (\<forall>y. Y = Some y \<longrightarrow> n_unique y * n_folds \<le> n))
         \<and> (\<forall>n. c = Some n \<longrightarrow> 1 \<le> n)))
   \<and> (validate_sample_shape Y sample_shape n_folds = Inr ()
        \<or> (\<exists>e. validate_sample_shape Y sample_shape n_folds = Inl (ValueError e)))
   \<and> (n_unique y3 = 3 \<longrightarrow>
        validate_sample_shape (Some y3) (ShapeSeq [Some 4, None]) 2
          = Inl (ValueError (SampleLessThanMinRows 6)))"
proof (intro conjI)
  show "(validate_sample_shape Y sample_shape n_folds = Inr ()) =
     (sample_shape = ShapeNone \<or>
      (\<exists>r c. sample_shape = ShapeSeq [r, c]
         \<and> (\<forall>n. r = Some n \<longrightarrow> 1 \<le> n \<and> (\<forall>y. Y = Some y \<longrightarrow> n_unique y * n_folds \<le> n))
         \<and> (\<forall>n. c = Some n \<longrightarrow> 1 \<le> n)))"
  proof (cases sample_shape)
    case (ShapeSeq s)
    show ?thesis
    proof (cases "length s = 2")
      case True
      then obtain r c where s: "s = [r, c]"
        by (cases s; cases "tl s"; auto)
      show ?thesis unfolding ShapeSeq s
        by (cases r; cases c; cases Y; auto simp: validate_sample_shape_def)
    next
      case False
      then show ?thesis unfolding ShapeSeq
        by (auto simp: validate_sample_shape_def)
    qed
  qed (simp_all add: validate_sample_shape_def)
  show "validate_sample_shape Y sample_shape n_folds = Inr ()
        \<or> (\<exists>e. validate_sample_shape Y sample_shape n_folds = Inl (ValueError e))"
    by (cases sample_shape) (simp_all add: validate_sample_shape_def)
  show "n_unique y3 = 3 \<longrightarrow>
        validate_sample_shape (Some y3) (ShapeSeq [Some 4, None]) 2
          = Inl (ValueError (SampleLessThanMinRows 6))"
    by (simp add: validate_sample_shape_def)
qed

theorem validate_sample_shape_raises_witness:
  "n_unique three_classes = 3
   \<and> validate_sample_shape (Some three_classes) (ShapeSeq [Some 4, None]) 2
       = Inl (ValueError (SampleLessThanMinRows 6))
   \<and> validate_sample_shape (Some three_classes) (ShapeSeq [Some 6, None]) 2 = Inr ()
   \<and> validate_sample_shape (Some three_classes) (ShapeSeq [Some 6, Some 0]) 2 \<noteq> Inr ()
   \<and> validate_sample_shape (Some three_classes) (ShapeSeq [Some 6]) 2 \<noteq> Inr ()
   \<and> validate_sample_shape (Some three_classes) ShapeOther 2 \<noteq> Inr ()"
proof -
  have u: "n_unique three_classes = 3"
    by (simp add: n_unique_def three_classes_def)
  show ?thesis
    using u
      validate_sample_shape_raises [of "Some three_classes" "ShapeSeq [Some 4, None]" 2 three_classes]
      validate_sample_shape_raises [of "Some three_classes" "ShapeSeq [Some 6, None]" 2 three_classes]
      validate_sample_shape_raises [of "Some three_classes" "ShapeSeq [Some 6, Some 0]" 2 three_classes]
      validate_sample_shape_raises [of "Some three_classes" "ShapeSeq [Some 6]" 2 three_classes]
      validate_sample_shape_raises [of "Some three_classes" "ShapeOther" 2 three_classes]
    by simp
qed

text \<open>
  C8, as the code has it. When a column-type map is given, \<open>_validate_column_types\<close>
  raises a \<open>ValueError\<close> unless the map has as many entries as there are feature columns
  (one more when a target is given) and every mapped type is \<open>NUMERIC\<close> or \<open>CATEGORICAL\<close>.
  The names that key the map are not compared with the column names.
\<close>

theorem validate_column_types_counts_only:
  "(validate_column_types X Y (Some ct) = Inr ()) =
     (length ct = length X + (if Y = None then 0 else 1)
      \<and> (\<forall>(col_name, col_type) \<in> set ct. col_type = NUMERIC \<or> col_type = CATEGORICAL))
   \<and> (validate_column_types X Y (Some ct) = Inr ()
        \<or> (\<exists>e. validate_column_types X Y (Some ct) = Inl (ValueError e)))
   \<and> validate_column_types X Y None = Inr ()"
  by (auto simp: validate_column_types_def Let_def filter_empty_conv valid_type_def)

theorem validate_column_types_counts_only_witness:
  "validate_column_types two_features None (Some [(''a'', NUMERIC), (''b'', CATEGORICAL)]) = Inr ()
   \<and> validate_column_types two_features None (Some [(''a'', NUMERIC)]) \<noteq> Inr ()
   \<and> validate_column_types two_features None (Some [(''a'', NUMERIC), (''b'', ''NUMBER'')]) \<noteq> Inr ()
   \<and> validate_column_types two_features (Some three_classes)
        (Some [(''a'', NUMERIC), (''b'', CATEGORICAL)]) \<noteq> Inr ()"
  using validate_column_types_counts_only [of two_features None "[(''a'', NUMERIC), (''b'', CATEGORICAL)]"]
    validate_column_types_counts_only [of two_features None "[(''a'', NUMERIC)]"]
    validate_column_types_counts_only [of two_features None "[(''a'', NUMERIC), (''b'', ''NUMBER'')]"]
    validate_column_types_counts_only [of two_features "Some three_classes" "[(''a'', NUMERIC), (''b'', CATEGORICAL)]"]
  by (simp add: two_features_def NUMERIC_def CATEGORICAL_def)

text \<open>A map keyed by names that are not columns of the table, with the right number of
  entries, passes the validation.\<close>

theorem validate_column_types_wrong_names_accepted:
  "validate_column_types two_features None (Some [(''p'', NUMERIC), (''q'', CATEGORICAL)]) = Inr ()
   \<and> set (map fst [(''p'', NUMERIC), (''q'', CATEGORICAL)]) \<inter> set (map col_name two_features) = {}"
  by (simp add: validate_column_types_def two_features_def valid_type_def NUMERIC_def CATEGORICAL_def)

section \<open>Properties of the target-dependence analysis\<close>




section \<open>Properties of the evaluator\<close>

text \<open>
  C1. Let \<open>r\<close> be a resource that is not cached and one of whose parameters is the
  resource \<open>b\<close>. If the parameters before \<open>b\<close> resolve to values and \<open>b\<close> resolves to
  \<open>np.nan\<close>, then \<open>_get_parameters\<close> gives up with \<open>None\<close>, the producing function of \<open>r\<close> is not
  called (the calls made are those made while resolving \<open>b\<close>), every declared output of
  \<open>r\<close> is cached as \<open>np.nan\<close> with compute time NaN, and \<open>r\<close> itself resolves to \<open>np.nan\<close> with
  time NaN. So a resource that has \<open>r\<close> as a parameter is in the same situation, with \<open>r\<close>
  for \<open>b\<close>.
\<close>

theorem nan_parameter_propagates:
  assumes miss: "self_resources st r = None"
    and info: "resource_info reg r = Some info" "rd_function info = Some f"
    and returns: "lookup_returns reg info f = Some returns"
    and parameters: "lookup_parameters reg info f = Some (pre @ Ref b # post)"
    and offset: "assign_seed_offset reg info f st = Inr st0"
    and pre: "get_parameters_loop reg w d st0 pre [] (Tm 0) = Returned (Some vs, t) st1"
    and b: "get_resource reg w d st1 b = Returned (NaN, tb) st2"
    and st3: "st3 = store_results st2 returns (replicate (length returns) NaN) TNaN"
  shows "get_parameters reg w d st r = Returned (None, t) st2
         \<and> get_resource reg w (Suc d) st r = return_cached st3 r
         \<and> (r \<in> set returns \<longrightarrow> get_resource reg w (Suc d) st r = Returned (NaN, TNaN) st3)
         \<and> (\<forall>name \<in> set returns. self_resources st3 name = Some (NaN, TNaN))
         \<and> calls st3 = calls st2"
proof -
  have loop: "get_parameters_loop reg w d st0 (pre @ Ref b # post) [] (Tm 0) = Returned (None, t) st2"
    using pre b by (simp add: get_parameters_loop_append)
  have gp: "get_parameters reg w d st r = Returned (None, t) st2"
    using get_parameters_unfold [OF info parameters offset] loop by simp
  have stored: "self_resources st3 name = Some (NaN, TNaN)" if "name \<in> set returns" for name
    using stored_outputs_time [of returns "replicate (length returns) NaN" name st2 TNaN] that
    by (auto simp: st3)
  have gr: "get_resource reg w (Suc d) st r = return_cached st3 r"
    using get_resource_miss [OF miss info returns, of w d] gp by (simp add: st3)
  have "get_resource reg w (Suc d) st r = Returned (NaN, TNaN) st3" if "r \<in> set returns"
    using gr stored [OF that] by (simp add: return_cached_def)
  with gp gr stored show ?thesis
    by (simp add: st3 calls_store_results)
qed

theorem nan_parameter_propagates_witness:
  "returned (get_resource demo_registry demo_world 5 demo_session ''MeanOfMeans'') = Some (NaN, TNaN)
   \<and> get_resource demo_registry demo_world 6 demo_session ''ScaledMeanOfMeans''
       = Returned (NaN, TNaN)
           (store_results
              (session_of (get_resource demo_registry demo_world 5 demo_session ''MeanOfMeans''))
              [''ScaledMeanOfMeans''] [NaN] TNaN)
   \<and> map fst (calls (session_of
         (get_resource demo_registry demo_world 6 demo_session ''ScaledMeanOfMeans'')))
       = [''rows_seed'', ''XSample'', ''NumericFeatures'']"
proof -
  let ?st2 = "session_of (get_resource demo_registry demo_world 5 demo_session ''MeanOfMeans'')"
  let ?info = "\<lparr>rd_function = Some ''scale'', rd_parameters = Some [Lit 3, Ref ''MeanOfMeans''],
                rd_returns = Some [''ScaledMeanOfMeans''], rd_seed_offset = None\<rparr>"
  have nan: "returned (get_resource demo_registry demo_world 5 demo_session ''MeanOfMeans'')
               = Some (NaN, TNaN)"
    by (simp add: demo_defs eval_nat_numeral)
  have b: "get_resource demo_registry demo_world 5 demo_session ''MeanOfMeans''
             = Returned (NaN, TNaN) ?st2"
    by (rule returned_session [OF nan])
  have made: "map fst (calls ?st2) = [''rows_seed'', ''XSample'', ''NumericFeatures'']"
    by (simp add: demo_defs eval_nat_numeral)
  have miss: "self_resources demo_session ''ScaledMeanOfMeans'' = None"
    by (simp add: demo_defs)
  have info: "resource_info demo_registry ''ScaledMeanOfMeans'' = Some ?info"
    by (simp add: demo_defs)
  have fn: "rd_function ?info = Some ''scale''" by simp
  have returns: "lookup_returns demo_registry ?info ''scale'' = Some [''ScaledMeanOfMeans'']"
    by (simp add: demo_defs)
  have parameters: "lookup_parameters demo_registry ?info ''scale''
                      = Some ([Lit 3] @ Ref ''MeanOfMeans'' # [])"
    by (simp add: demo_defs)
  have offset: "assign_seed_offset demo_registry ?info ''scale'' demo_session = Inr demo_session"
    by (simp add: demo_registry_def assign_seed_offset_def)
  have pre: "get_parameters_loop demo_registry demo_world 5 demo_session [Lit 3] [] (Tm 0)
               = Returned (Some [Num 3], Tm 0) demo_session"
    by simp
  note T = nan_parameter_propagates [OF miss info fn returns parameters offset pre b refl]
  from T [THEN conjunct2, THEN conjunct2, THEN conjunct1]
  have r: "get_resource demo_registry demo_world (Suc 5) demo_session ''ScaledMeanOfMeans''
                    = Returned (NaN, TNaN) (store_results ?st2 [''ScaledMeanOfMeans''] [NaN] TNaN)"
    by (simp del: get_resource.simps get_parameters.simps)
  have six: "(6::nat) = Suc 5" by simp
  show ?thesis
    unfolding six r using nan made by (simp add: calls_store_results del: get_resource.simps)
qed

text \<open>
  C3. When the producing function of an uncached resource is called and returns at least
  as many results as the resource declares outputs, every declared output is cached under
  its own name with one and the same compute time, the time spent resolving the
  parameters plus the elapsed time of that one call, and exactly one call is recorded.
\<close>

theorem shared_outputs_share_time:
  assumes miss: "self_resources st r = None"
    and info: "resource_info reg r = Some info" "rd_function info = Some f"
    and returns: "lookup_returns reg info f = Some returns"
    and parameters: "get_parameters reg w d st r = Returned (Some args, t) st1"
    and call: "call_function w st1 f args = Inr results"
    and arity: "length returns \<le> length results"
    and total: "total_time = tadd t (Tm (elapsed w (length (calls st1))))"
    and st3: "st3 = store_results (log_call st1 r f) returns results total_time"
  shows "get_resource reg w (Suc d) st r = return_cached st3 r
         \<and> (\<forall>name \<in> set returns. \<exists>v. self_resources st3 name = Some (v, total_time))
         \<and> (distinct returns \<longrightarrow>
              (\<forall>i < length returns. self_resources st3 (returns ! i) = Some (results ! i, total_time)))
         \<and> calls st3 = calls st1 @ [(r, f, self_seed_offset st1)]"
proof -
  have gr: "get_resource reg w (Suc d) st r = return_cached st3 r"
    using get_resource_miss [OF miss info returns, of w d] parameters call
    by (simp add: st3 total)
  have stored: "\<exists>v. self_resources st3 name = Some (v, total_time)" if "name \<in> set returns" for name
    using stored_outputs_time [OF arity that, of "log_call st1 r f" total_time]
    by (auto simp: st3)
  have nth: "self_resources st3 (returns ! i) = Some (results ! i, total_time)"
    if "distinct returns" "i < length returns" for i
    using stored_outputs_nth [OF arity that] by (simp add: st3)
  have "calls st3 = calls st1 @ [(r, f, self_seed_offset st1)]"
    by (simp add: st3 calls_store_results log_call_def)
  with gr stored nth show ?thesis by blast
qed

theorem shared_outputs_share_time_witness:
  "map (\<lambda>name. map_option snd
          (self_resources (session_of (get_resource demo_registry demo_world 3 demo_session ''XSample''))
             name)) [''XSample'', ''YSample'']
     = [Some (Tm 21), Some (Tm 21)]
   \<and> calls (session_of (get_resource demo_registry demo_world 3 demo_session ''XSample''))
       = [(''rows_seed'', ''self._get_seed'', Some 2), (''XSample'', ''self._sample_rows'', Some 2)]"
proof -
  let ?out = "get_parameters demo_registry demo_world 2 demo_session ''XSample''"
  let ?st1 = "session_of ?out"
  let ?info = "by_function ''self._sample_rows''"
  let ?args = "[Frame (dropna_all_columns two_features), Ser three_classes,
                ShapeV (ShapeSeq [None, None]), Num 2, Num 9]"
  let ?results = "[Frame (dropna_all_columns two_features), Ser three_classes]"
  have "returned ?out = Some (Some ?args, Tm 10)"
    by (simp add: demo_registry_def demo_world_def demo_session_def by_function_def given_def
          init_resources_def set_seed_def fresh_object_def
          lookup_returns_def lookup_parameters_def assign_seed_offset_def call_function_def
          get_seed_def store_results_def log_call_def return_cached_def eval_nat_numeral)
  then have gp: "?out = Returned (Some ?args, Tm 10) ?st1"
    by (rule returned_session)
  have made: "calls ?st1 = [(''rows_seed'', ''self._get_seed'', Some 2)]"
    by (simp add: demo_registry_def demo_world_def demo_session_def by_function_def given_def
          init_resources_def set_seed_def fresh_object_def
          lookup_returns_def lookup_parameters_def assign_seed_offset_def call_function_def
          get_seed_def store_results_def log_call_def return_cached_def eval_nat_numeral)
  have off: "self_seed_offset ?st1 = Some 2"
    by (simp add: demo_registry_def demo_world_def demo_session_def by_function_def given_def
          init_resources_def set_seed_def fresh_object_def
          lookup_returns_def lookup_parameters_def assign_seed_offset_def call_function_def
          get_seed_def store_results_def log_call_def return_cached_def eval_nat_numeral)
  have miss: "self_resources demo_session ''XSample'' = None"
    by (simp add: demo_defs)
  have info: "resource_info demo_registry ''XSample'' = Some ?info"
    by (simp add: demo_registry_def)
  have fn: "rd_function ?info = Some ''self._sample_rows''"
    by (simp add: by_function_def)
  have returns: "lookup_returns demo_registry ?info ''self._sample_rows''
                   = Some [''XSample'', ''YSample'']"
    by (simp add: demo_registry_def by_function_def lookup_returns_def)
  have call: "call_function demo_world ?st1 ''self._sample_rows'' ?args = Inr ?results"
    by (simp add: call_function_def demo_world_def)
  have arity: "length [''XSample'', ''YSample''] \<le> length ?results" by simp
  have el: "elapsed demo_world (length (calls ?st1)) = 11"
    unfolding made by (simp add: demo_world_def)
  define st3 where "st3 = store_results (log_call ?st1 ''XSample'' ''self._sample_rows'')
                            [''XSample'', ''YSample''] ?results (Tm 21)"
  have total: "Tm 21 = tadd (Tm 10) (Tm (elapsed demo_world (length (calls ?st1))))"
    unfolding el by simp
  note T = shared_outputs_share_time [OF miss info fn returns gp call arity total st3_def]
  from T have x: "\<exists>v. self_resources st3 ''XSample'' = Some (v, Tm 21)"
    and y: "\<exists>v. self_resources st3 ''YSample'' = Some (v, Tm 21)"
    and cl: "calls st3 = calls ?st1 @ [(''XSample'', ''self._sample_rows'', self_seed_offset ?st1)]"
    and gr: "get_resource demo_registry demo_world (Suc 2) demo_session ''XSample''
               = return_cached st3 ''XSample''"
    by simp_all
  from x gr have "session_of (get_resource demo_registry demo_world (Suc 2) demo_session ''XSample'') = st3"
    by (auto simp: return_cached_def simp del: get_resource.simps)
  then have s: "session_of (get_resource demo_registry demo_world 3 demo_session ''XSample'') = st3"
    by (simp del: get_resource.simps)
  show ?thesis
    unfolding s using x y cl off made by auto
qed

text \<open>
  C2. Resolving a name that is in the cache returns the cached pair and leaves the session
  as it is, so no producing function is called. On a registry whose parameter references
  are acyclic, no resource has its producing function called twice in a session: the
  names recorded at the calls stay distinct through every \<open>_get_resource\<close>, whether it
  returns or raises, and through a whole \<open>compute\<close>, for any list of requested names.
\<close>

theorem producing_function_called_at_most_once:
  fixes rank :: "string \<Rightarrow> nat"
  assumes "ranked reg rank"
  shows "(self_resources st r = Some cached \<longrightarrow>
            get_resource reg w (Suc d) st r = Returned cached st)
         \<and> (calls_cached st \<longrightarrow>
              distinct (call_names (session_of (get_resource reg w d st r)))
              \<and> (\<forall>x st'. get_resource reg w d st r = Returned x st' \<longrightarrow> calls_cached st'))
         \<and> (distinct (call_names self) \<longrightarrow>
              distinct (call_names (session_of
                (compute reg w d self X Y column_types metafeature_ids sample_shape seed rnd
                   n_folds))))"
proof (intro conjI impI allI)
  assume "self_resources st r = Some cached"
  then show "get_resource reg w (Suc d) st r = Returned cached st"
    by (rule get_resource_hit)
next
  assume "calls_cached st"
  from get_resource_ok [OF assms this, of r w d]
  show "distinct (call_names (session_of (get_resource reg w d st r)))"
    by (simp add: step_ok_def)
next
  fix x st'
  assume "calls_cached st" and "get_resource reg w d st r = Returned x st'"
  with get_resource_ok [OF assms, of st r w d] show "calls_cached st'"
    by (simp add: step_ok_def calls_cached_def)
next
  assume "distinct (call_names self)"
  with assms show "distinct (call_names (session_of
                (compute reg w d self X Y column_types metafeature_ids sample_shape seed rnd
                   n_folds)))"
    by (rule compute_calls_distinct)
qed

theorem producing_function_called_at_most_once_witness:
  "call_names (session_of
     (compute demo_registry demo_world 6 fresh_object two_features (Some three_classes) None
        (Some [''NumberOfClasses'', ''NumberOfInstances'', ''MeanOfMeans'', ''NumberOfInstances''])
        ShapeNone (Some 7) 0 2))
     = [''rows_seed'', ''YSample'', ''NumberOfClasses'', ''NumberOfInstances'', ''NumericFeatures'']
   \<and> distinct (call_names (session_of
     (compute demo_registry demo_world 6 fresh_object two_features (Some three_classes) None
        (Some [''NumberOfClasses'', ''NumberOfInstances'', ''MeanOfMeans'', ''NumberOfInstances''])
        ShapeNone (Some 7) 0 2)))
   \<and> get_resource demo_registry demo_world 1 demo_session ''n_folds''
       = Returned (Num 2, Tm 0) demo_session"
proof -
  have fresh: "distinct (call_names fresh_object)"
    by (simp add: call_names_def fresh_object_def)
  have hit: "self_resources demo_session ''n_folds'' = Some (Num 2, Tm 0)"
    by (simp add: demo_session_def init_resources_def)
  note T = producing_function_called_at_most_once [OF ranked_demo,
      where st = demo_session and r = "''n_folds''" and cached = "(Num 2, Tm 0)" and d = 0]
  note U = producing_function_called_at_most_once [OF ranked_demo,
      where self = fresh_object and w = demo_world and d = 6 and X = two_features
        and Y = "Some three_classes" and column_types = None
        and metafeature_ids = "Some [''NumberOfClasses'', ''NumberOfInstances'', ''MeanOfMeans'',
                                     ''NumberOfInstances'']"
        and sample_shape = ShapeNone and seed = "Some 7" and rnd = 0 and n_folds = 2]
  have made: "call_names (session_of
     (compute demo_registry demo_world 6 fresh_object two_features (Some three_classes) None
        (Some [''NumberOfClasses'', ''NumberOfInstances'', ''MeanOfMeans'', ''NumberOfInstances''])
        ShapeNone (Some 7) 0 2))
     = [''rows_seed'', ''YSample'', ''NumberOfClasses'', ''NumberOfInstances'', ''NumericFeatures'']"
    by (simp add: call_names_def compute_defs demo_registry_def demo_world_def by_function_def
          given_def init_resources_def set_seed_def fresh_object_def two_features_def
          three_classes_def group_keys_def group_size_def NUMERIC_def CATEGORICAL_def
          lookup_returns_def lookup_parameters_def assign_seed_offset_def call_function_def
          get_seed_def store_results_def log_call_def return_cached_def eval_nat_numeral)
  have one: "(1::nat) = Suc 0" by simp
  have cachedhit: "get_resource demo_registry demo_world 1 demo_session ''n_folds''
       = Returned (Num 2, Tm 0) demo_session"
    unfolding one by (rule T [THEN conjunct1, rule_format, OF hit])
  have once: "distinct (call_names (session_of
     (compute demo_registry demo_world 6 fresh_object two_features (Some three_classes) None
        (Some [''NumberOfClasses'', ''NumberOfInstances'', ''MeanOfMeans'', ''NumberOfInstances''])
        ShapeNone (Some 7) 0 2)))"
    by (rule U [THEN conjunct2, THEN conjunct2, rule_format, OF fresh])
  from made once cachedhit show ?thesis by (intro conjI)
qed

text \<open>
  Without a rank the statement fails: in \<open>cyclic_registry\<close> \<open>r\<close> needs \<open>P\<close>, \<open>P\<close> needs \<open>A\<close>
  and \<open>r\<close>, and the function of \<open>A\<close> yields \<open>P\<close> as a second output. Resolving \<open>r\<close> resolves
  \<open>r\<close> again while \<open>P\<close> is being resolved, and the function of \<open>r\<close> is called twice.
\<close>

lemma cyclic_registry_calls_twice:
  "call_names (session_of (get_resource cyclic_registry constant_world 5 fresh_object ''r''))
     = [''A'', ''r'', ''P'', ''r'']"
  by (simp add: call_names_def cyclic_registry_def constant_world_def fresh_object_def
        lookup_returns_def lookup_parameters_def assign_seed_offset_def call_function_def
        store_results_def log_call_def return_cached_def eval_nat_numeral)




section \<open>Properties of \<open>compute\<close>\<close>

text \<open>
  C10. \<open>_init_resources\<close> replaces the cache by exactly six entries, \<open>XRaw\<close>, \<open>X\<close>, \<open>Y\<close>,
  \<open>ColumnTypes\<close>, \<open>sample_shape\<close> and \<open>n_folds\<close>, each with compute time 0; \<open>XRaw\<close> is the
  feature table as given and \<open>X\<close> is the table without the columns whose cells are all
  missing. When both validations pass, \<open>compute\<close> evaluates the requested names starting
  from that cache, whatever the cache of the object held before.
\<close>

theorem init_resources_fresh_cache:
  "self_resources (init_resources self X Y ct ids shape seed rnd nf) =
     [''XRaw'' \<mapsto> (Frame X, Tm 0),
      ''X'' \<mapsto> (Frame (filter (\<lambda>c. \<not> (\<forall>x \<in> set (col_cells c). x = None)) X), Tm 0),
      ''Y'' \<mapsto> ((case Y of None \<Rightarrow> PyNone | Some y \<Rightarrow> Ser y), Tm 0),
      ''ColumnTypes'' \<mapsto> (ColTypes ct, Tm 0),
      ''sample_shape'' \<mapsto> (ShapeV shape, Tm 0),
      ''n_folds'' \<mapsto> (Num nf, Tm 0)]
   \<and> dom (self_resources (init_resources self X Y ct ids shape seed rnd nf))
       = {''XRaw'', ''X'', ''Y'', ''ColumnTypes'', ''sample_shape'', ''n_folds''}
   \<and> (\<forall>name v t. self_resources (init_resources self X Y ct ids shape seed rnd nf) name = Some (v, t)
         \<longrightarrow> t = Tm 0)
   \<and> calls (init_resources self X Y ct ids shape seed rnd nf) = []
   \<and> (validate_compute_arguments reg X Y column_types metafeature_ids sample_shape n_folds = Inr ()
        \<longrightarrow> validate_compute_arguments reg X Y
              (Some (column_types_or_inferred X Y column_types))
              (Some (metafeature_ids_or_all reg metafeature_ids))
              (sample_shape_or_unbounded sample_shape) n_folds = Inr ()
        \<longrightarrow> compute reg w d (self\<lparr>self_resources := old, calls := made\<rparr>) X Y column_types
               metafeature_ids sample_shape seed rnd n_folds
            = compute_loop reg w d Y (column_types_or_inferred X Y column_types)
                (init_resources self X Y (column_types_or_inferred X Y column_types)
                   (metafeature_ids_or_all reg metafeature_ids)
                   (sample_shape_or_unbounded sample_shape) seed rnd n_folds)
                (metafeature_ids_or_all reg metafeature_ids) Map.empty)"
proof (intro conjI)
  show "self_resources (init_resources self X Y ct ids shape seed rnd nf) =
     [''XRaw'' \<mapsto> (Frame X, Tm 0),
      ''X'' \<mapsto> (Frame (filter (\<lambda>c. \<not> (\<forall>x \<in> set (col_cells c). x = None)) X), Tm 0),
      ''Y'' \<mapsto> ((case Y of None \<Rightarrow> PyNone | Some y \<Rightarrow> Ser y), Tm 0),
      ''ColumnTypes'' \<mapsto> (ColTypes ct, Tm 0),
      ''sample_shape'' \<mapsto> (ShapeV shape, Tm 0),
      ''n_folds'' \<mapsto> (Num nf, Tm 0)]"
    by (simp add: init_resources_def dropna_all_columns_def)
  show "dom (self_resources (init_resources self X Y ct ids shape seed rnd nf))
       = {''XRaw'', ''X'', ''Y'', ''ColumnTypes'', ''sample_shape'', ''n_folds''}"
    by (auto simp: init_resources_def)
  show "\<forall>name v t. self_resources (init_resources self X Y ct ids shape seed rnd nf) name = Some (v, t)
         \<longrightarrow> t = Tm 0"
    by (auto simp: init_resources_def split: if_splits)
  show "calls (init_resources self X Y ct ids shape seed rnd nf) = []"
    by (simp add: init_resources_def)
  show "validate_compute_arguments reg X Y column_types metafeature_ids sample_shape n_folds = Inr ()
        \<longrightarrow> validate_compute_arguments reg X Y
              (Some (column_types_or_inferred X Y column_types))
              (Some (metafeature_ids_or_all reg metafeature_ids))
              (sample_shape_or_unbounded sample_shape) n_folds = Inr ()
        \<longrightarrow> compute reg w d (self\<lparr>self_resources := old, calls := made\<rparr>) X Y column_types
               metafeature_ids sample_shape seed rnd n_folds
            = compute_loop reg w d Y (column_types_or_inferred X Y column_types)
                (init_resources self X Y (column_types_or_inferred X Y column_types)
                   (metafeature_ids_or_all reg metafeature_ids)
                   (sample_shape_or_unbounded sample_shape) seed rnd n_folds)
                (metafeature_ids_or_all reg metafeature_ids) Map.empty"
    by (simp add: compute_def Let_def init_resources_forgets)
qed

theorem init_resources_fresh_cache_witness:
  "self_resources demo_session ''XRaw'' = Some (Frame two_features, Tm 0)
   \<and> self_resources demo_session ''X''
       = Some (Frame [\<lparr>col_name = ''a'', col_numeric = True, col_cells = [Some 1, Some 2]\<rparr>], Tm 0)
   \<and> self_resources demo_session ''NumberOfInstances'' = None
   \<and> reported (compute demo_registry demo_world 6
        (fresh_object\<lparr>self_resources := [''NumberOfInstances'' \<mapsto> (Num 99, Tm 5)], calls := []\<rparr>)
        two_features None None (Some [''NumberOfInstances'']) ShapeNone (Some 7) 0 2)
        ''NumberOfInstances''
       = Some (Num 2, Some (Tm 33))"
proof -
  have v1: "validate_compute_arguments demo_registry two_features None None
              (Some [''NumberOfInstances'']) ShapeNone 2 = Inr ()"
    by (simp add: validate_defs demo_registry_def by_function_def given_def two_features_def)
  have v2: "validate_compute_arguments demo_registry two_features None
              (Some (column_types_or_inferred two_features None None))
              (Some (metafeature_ids_or_all demo_registry (Some [''NumberOfInstances''])))
              (sample_shape_or_unbounded ShapeNone) 2 = Inr ()"
    by (simp add: validate_defs demo_registry_def by_function_def given_def two_features_def)
  note T = init_resources_fresh_cache [where self = fresh_object and X = two_features
      and Y = "Some three_classes"
      and ct = "[(''a'', NUMERIC), (''b'', CATEGORICAL), (''target'', CATEGORICAL)]"
      and ids = "[]" and shape = "ShapeSeq [None, None]" and seed = "Some 7" and rnd = 0 and nf = 2]
  note U = init_resources_fresh_cache [where self = fresh_object and X = two_features
      and Y = None and seed = "Some 7" and rnd = 0 and reg = demo_registry and column_types = None
      and metafeature_ids = "Some [''NumberOfInstances'']" and sample_shape = ShapeNone
      and n_folds = 2 and w = demo_world and d = 6
      and old = "[''NumberOfInstances'' \<mapsto> (Num 99, Tm 5)]" and made = "[]"]
  from T [THEN conjunct1] have cache: "self_resources demo_session =
     [''XRaw'' \<mapsto> (Frame two_features, Tm 0),
      ''X'' \<mapsto> (Frame (filter (\<lambda>c. \<not> (\<forall>x \<in> set (col_cells c). x = None)) two_features), Tm 0),
      ''Y'' \<mapsto> (Ser three_classes, Tm 0),
      ''ColumnTypes'' \<mapsto> (ColTypes [(''a'', NUMERIC), (''b'', CATEGORICAL), (''target'', CATEGORICAL)], Tm 0),
      ''sample_shape'' \<mapsto> (ShapeV (ShapeSeq [None, None]), Tm 0),
      ''n_folds'' \<mapsto> (Num 2, Tm 0)]"
    by (simp add: demo_session_def)
  have run: "compute demo_registry demo_world 6
        (fresh_object\<lparr>self_resources := [''NumberOfInstances'' \<mapsto> (Num 99, Tm 5)], calls := []\<rparr>)
        two_features None None (Some [''NumberOfInstances'']) ShapeNone (Some 7) 0 2
      = compute_loop demo_registry demo_world 6 None (column_types_or_inferred two_features None None)
                (init_resources fresh_object two_features None (column_types_or_inferred two_features None None)
                   (metafeature_ids_or_all demo_registry (Some [''NumberOfInstances'']))
                   (sample_shape_or_unbounded ShapeNone) (Some 7) 0 2)
                (metafeature_ids_or_all demo_registry (Some [''NumberOfInstances''])) Map.empty"
    by (rule U [THEN conjunct2, THEN conjunct2, THEN conjunct2, THEN conjunct2, rule_format,
          OF v1 v2])
  have "reported (compute_loop demo_registry demo_world 6 None (column_types_or_inferred two_features None None)
                (init_resources fresh_object two_features None (column_types_or_inferred two_features None None)
                   (metafeature_ids_or_all demo_registry (Some [''NumberOfInstances'']))
                   (sample_shape_or_unbounded ShapeNone) (Some 7) 0 2)
                (metafeature_ids_or_all demo_registry (Some [''NumberOfInstances''])) Map.empty)
           ''NumberOfInstances'' = Some (Num 2, Some (Tm 33))"
    by (simp add: validate_defs compute_one_def demo_registry_def demo_world_def by_function_def
          given_def init_resources_def set_seed_def fresh_object_def two_features_def
          lookup_returns_def lookup_parameters_def assign_seed_offset_def call_function_def
          get_seed_def store_results_def log_call_def return_cached_def eval_nat_numeral)
  then have rep: "reported (compute demo_registry demo_world 6
        (fresh_object\<lparr>self_resources := [''NumberOfInstances'' \<mapsto> (Num 99, Tm 5)], calls := []\<rparr>)
        two_features None None (Some [''NumberOfInstances'']) ShapeNone (Some 7) 0 2)
        ''NumberOfInstances'' = Some (Num 2, Some (Tm 33))"
    unfolding run .
  have c1: "self_resources demo_session ''XRaw'' = Some (Frame two_features, Tm 0)"
    unfolding cache by simp
  have c2: "self_resources demo_session ''X''
       = Some (Frame [\<lparr>col_name = ''a'', col_numeric = True, col_cells = [Some 1, Some 2]\<rparr>], Tm 0)"
    unfolding cache by (simp add: two_features_def)
  have c3: "self_resources demo_session ''NumberOfInstances'' = None"
    unfolding cache by simp
  from c1 c2 c3 rep show ?thesis by (intro conjI)
qed

text \<open>
  C5, as the code has it. When \<open>compute\<close> returns, a requested name that is
  target-dependent is reported with the value \<open>NO_TARGETS\<close> when no target was given, and
  with \<open>NUMERIC_TARGETS\<close> when the column type of the target is \<open>NUMERIC\<close>. In both cases
  the loop body leaves the session as it is, so \<open>_get_resource\<close> is not called for that
  name, and the compute time reported is \<open>None\<close>.
\<close>

theorem target_dependent_gated:
  assumes td: "is_target_dependent reg d (Ref mf) = Inr True"
    and requested: "mf \<in> set (metafeature_ids_or_all reg metafeature_ids)"
    and run: "compute reg w d self X Y column_types metafeature_ids sample_shape seed rnd n_folds
                = Returned result st'"
    and ct: "ct = column_types_or_inferred X Y column_types"
  shows "(Y = None \<longrightarrow>
            compute_one reg w d Y ct st mf = Returned (Str NO_TARGETS, None) st
            \<and> result mf = Some (Str NO_TARGETS, None))
         \<and> (\<forall>y. Y = Some y \<and> map_of ct (ser_name y) = Some NUMERIC \<longrightarrow>
               compute_one reg w d Y ct st mf = Returned (Str NUMERIC_TARGETS, None) st
               \<and> result mf = Some (Str NUMERIC_TARGETS, None))"
proof (intro conjI impI allI)
  assume "Y = None"
  then show "compute_one reg w d Y ct st mf = Returned (Str NO_TARGETS, None) st"
    using compute_one_no_target [OF td] by simp
next
  assume Y: "Y = None"
  have gate: "\<And>s. compute_one reg w d Y ct s mf = Returned (Str NO_TARGETS, None) s"
    using compute_one_no_target [OF td] Y by simp
  from compute_loop_gated [OF gate compute_Returned [OF run, folded ct]] requested
  show "result mf = Some (Str NO_TARGETS, None)" by simp
next
  fix y assume "Y = Some y \<and> map_of ct (ser_name y) = Some NUMERIC"
  then show "compute_one reg w d Y ct st mf = Returned (Str NUMERIC_TARGETS, None) st"
    using compute_one_numeric_target [OF td] by simp
next
  fix y assume Y: "Y = Some y \<and> map_of ct (ser_name y) = Some NUMERIC"
  have gate: "\<And>s. compute_one reg w d Y ct s mf = Returned (Str NUMERIC_TARGETS, None) s"
    using compute_one_numeric_target [OF td] Y by simp
  from compute_loop_gated [OF gate compute_Returned [OF run, folded ct]] requested
  show "result mf = Some (Str NUMERIC_TARGETS, None)" by simp
qed

theorem target_dependent_gated_witness:
  "reported (compute demo_registry demo_world 6 fresh_object two_features None None
      (Some [''NumberOfClasses'']) ShapeNone (Some 7) 0 2) ''NumberOfClasses''
     = Some (Str NO_TARGETS, None)
   \<and> reported (compute demo_registry demo_world 6 fresh_object two_features
        (Some (three_classes\<lparr>ser_numeric := True\<rparr>)) None
        (Some [''NumberOfClasses'']) ShapeNone (Some 7) 0 2) ''NumberOfClasses''
     = Some (Str NUMERIC_TARGETS, None)"
proof -
  let ?none = "compute demo_registry demo_world 6 fresh_object two_features None None
      (Some [''NumberOfClasses'']) ShapeNone (Some 7) 0 2"
  let ?y = "three_classes\<lparr>ser_numeric := True\<rparr>"
  let ?num = "compute demo_registry demo_world 6 fresh_object two_features (Some ?y) None
      (Some [''NumberOfClasses'']) ShapeNone (Some 7) 0 2"
  have td: "is_target_dependent demo_registry 6 (Ref ''NumberOfClasses'') = Inr True"
    by (simp add: demo_registry_def by_function_def given_def eval_nat_numeral)
  have requested: "''NumberOfClasses''
                     \<in> set (metafeature_ids_or_all demo_registry (Some [''NumberOfClasses'']))"
    by (simp add: metafeature_ids_or_all_def)
  have "returned ?none \<noteq> None"
    by (simp add: compute_defs demo_registry_def by_function_def given_def two_features_def
          eval_nat_numeral)
  then have "\<exists>x st'. ?none = Returned x st'" by (rule Returned_the)
  then obtain r1 s1 where run1: "?none = Returned r1 s1" by blast
  have "returned ?num \<noteq> None"
    by (simp add: compute_defs demo_registry_def by_function_def given_def two_features_def
          three_classes_def eval_nat_numeral)
  then have "\<exists>x st'. ?num = Returned x st'" by (rule Returned_the)
  then obtain r2 s2 where run2: "?num = Returned r2 s2" by blast
  have numeric: "map_of (column_types_or_inferred two_features (Some ?y) None) (ser_name ?y)
                   = Some NUMERIC"
    by (simp add: validate_defs two_features_def three_classes_def)
  from target_dependent_gated [OF td requested run1 refl, of fresh_object]
  have "r1 ''NumberOfClasses'' = Some (Str NO_TARGETS, None)" by simp
  moreover
  from target_dependent_gated [OF td requested run2 refl, of fresh_object] numeric
  have "r2 ''NumberOfClasses'' = Some (Str NUMERIC_TARGETS, None)" by simp
  ultimately show ?thesis
    unfolding run1 run2 by simp
qed

text \<open>The compute time reported with the sentinel is \<open>None\<close>, not the float zero.\<close>

theorem gated_compute_time_is_None:
  "is_target_dependent demo_registry 6 (Ref ''NumberOfClasses'') = Inr True
   \<and> reported (compute demo_registry demo_world 6 fresh_object two_features None None
        (Some [''NumberOfClasses'']) ShapeNone (Some 7) 0 2) ''NumberOfClasses''
       = Some (Str NO_TARGETS, None)
   \<and> reported (compute demo_registry demo_world 6 fresh_object two_features None None
        (Some [''NumberOfClasses'']) ShapeNone (Some 7) 0 2) ''NumberOfClasses''
       \<noteq> Some (Str NO_TARGETS, Some (Tm 0))"
  by (simp add: compute_defs demo_registry_def by_function_def given_def two_features_def
        eval_nat_numeral)

end
